theory Spec2Isabelle
  imports Complex_Main
begin

section \<open>Errors and sequence access\<close>

text \<open>
  The generators of \<^verbatim>\<open>features.py\<close> raise no exception of their own; what can go wrong
  inside them are Python's built-in errors and the kernel's \<^verbatim>\<open>Part.OCCError\<close>.
  \<open>InvalidParameter\<close> is the error category of the tooth generators' parameter check.
\<close>

datatype error = ZeroDivisionError | IndexError | ValueError | OCCError | InvalidParameter

text \<open>\<^verbatim>\<open>xs[-1]\<close> and \<^verbatim>\<open>xs[0]\<close>: both raise IndexError on an empty sequence.\<close>

definition py_last :: "'a list \<Rightarrow> error + 'a" where
  "py_last xs = (if xs = [] then Inl IndexError else Inr (last xs))"

definition py_first :: "'a list \<Rightarrow> error + 'a" where
  "py_first xs = (if xs = [] then Inl IndexError else Inr (hd xs))"

section \<open>Outline assembly (InvoluteGear, CycloidGear)\<close>

text \<open>
  A tooth profile is a list of point lists. The two-point array
  \<^verbatim>\<open>np.array([pts[-1][-1], rotated_pts[0][0]])\<close> joins the last point of the outline
  built so far to the first point of the freshly rotated copy.
\<close>

definition connector :: "'p list list \<Rightarrow> 'p list list \<Rightarrow> error + 'p list" where
  "connector pts rotated_pts =
     (case py_last pts of Inl e \<Rightarrow> Inl e | Inr c \<Rightarrow>
      case py_last c of Inl e \<Rightarrow> Inl e | Inr a \<Rightarrow>
      case py_first rotated_pts of Inl e \<Rightarrow> Inl e | Inr c' \<Rightarrow>
      case py_first c' of Inl e \<Rightarrow> Inl e | Inr b \<Rightarrow> Inr [a, b])"

text \<open>
  The loop \<^verbatim>\<open>for i in range(fp.gear.z - 1)\<close>. \<open>rotated_pts\<close> is rebound to a fresh list
  before \<open>pts\<close> is extended, so the initial aliasing of the two names has no effect.
\<close>

fun replicate_loop ::
  "nat \<Rightarrow> ('p list \<Rightarrow> 'p list) \<Rightarrow> 'p list list \<Rightarrow> 'p list list \<Rightarrow> error + 'p list list" where
  "replicate_loop 0 rot rotated_pts pts = Inr pts"
| "replicate_loop (Suc k) rot rotated_pts pts =
     (let rotated_pts' = map rot rotated_pts
      in case connector pts rotated_pts' of
           Inl e \<Rightarrow> Inl e
         | Inr c \<Rightarrow> replicate_loop k rot rotated_pts' ((pts @ [c]) @ rotated_pts'))"

definition assemble_outline ::
  "int \<Rightarrow> ('p list \<Rightarrow> 'p list) \<Rightarrow> 'p list list \<Rightarrow> error + 'p list list" where
  "assemble_outline z rot pts0 =
     (case replicate_loop (nat (z - 1)) rot pts0 pts0 of
        Inl e \<Rightarrow> Inl e
      | Inr pts \<Rightarrow>
          (case connector pts pts of Inl e \<Rightarrow> Inl e | Inr c \<Rightarrow> Inr (pts @ [c])))"

text \<open>The \<open>i\<close>-th rotated copy of a profile, for a rotation that acts point by point.\<close>

definition rotated_copy :: "('p \<Rightarrow> 'p) \<Rightarrow> 'p list list \<Rightarrow> nat \<Rightarrow> 'p list list" where
  "rotated_copy r pts i = map (map (r ^^ i)) pts"

definition joint :: "('p \<Rightarrow> 'p) \<Rightarrow> 'p list list \<Rightarrow> nat \<Rightarrow> nat \<Rightarrow> 'p list" where
  "joint r pts i j = [last (last (rotated_copy r pts i)), hd (hd (rotated_copy r pts j))]"

section \<open>Backlash sign (InvoluteGear)\<close>

text \<open>\<^verbatim>\<open>fp.backlash.Value * (-fp.reversed_backlash + 0.5) * 2.\<close>; a Python bool is 0 or 1.\<close>

definition gear_backlash :: "real \<Rightarrow> bool \<Rightarrow> real" where
  "gear_backlash backlash reversed_backlash =
     backlash * (- of_bool reversed_backlash + 0.5) * 2"

section \<open>Transformation matrices\<close>

type_synonym point = "real \<times> real"
type_synonym vec3 = "real \<times> real \<times> real"

text \<open>
  \<^verbatim>\<open>App.Matrix\<close>: the first three rows of a 4x4 matrix, the fourth being (0, 0, 0, 1).
  \<^verbatim>\<open>rotateZ\<close> multiplies the rotation from the left and \<^verbatim>\<open>move\<close> adds to the translation
  column, so each call acts after the transformation accumulated so far.
\<close>

record matrix =
  A11 :: real  A12 :: real  A13 :: real  A14 :: real
  A21 :: real  A22 :: real  A23 :: real  A24 :: real
  A31 :: real  A32 :: real  A33 :: real  A34 :: real

definition Matrix :: matrix where
  "Matrix = \<lparr>A11 = 1, A12 = 0, A13 = 0, A14 = 0,
              A21 = 0, A22 = 1, A23 = 0, A24 = 0,
              A31 = 0, A32 = 0, A33 = 1, A34 = 0\<rparr>"

definition rotateZ :: "real \<Rightarrow> matrix \<Rightarrow> matrix" where
  "rotateZ a M =
     M\<lparr>A11 := cos a * A11 M - sin a * A21 M, A12 := cos a * A12 M - sin a * A22 M,
       A13 := cos a * A13 M - sin a * A23 M, A14 := cos a * A14 M - sin a * A24 M,
       A21 := sin a * A11 M + cos a * A21 M, A22 := sin a * A12 M + cos a * A22 M,
       A23 := sin a * A13 M + cos a * A23 M, A24 := sin a * A14 M + cos a * A24 M\<rparr>"

definition move :: "vec3 \<Rightarrow> matrix \<Rightarrow> matrix" where
  "move v M = (case v of (vx, vy, vz) \<Rightarrow>
     M\<lparr>A14 := A14 M + vx, A24 := A24 M + vy, A34 := A34 M + vz\<rparr>)"

definition transform_vec :: "matrix \<Rightarrow> vec3 \<Rightarrow> vec3" where
  "transform_vec M v = (case v of (x, y, z) \<Rightarrow>
     (A11 M * x + A12 M * y + A13 M * z + A14 M,
      A21 M * x + A22 M * y + A23 M * z + A24 M,
      A31 M * x + A32 M * y + A33 M * z + A34 M))"

section \<open>Kernel objects\<close>

text \<open>
  The modelling kernel (FreeCAD's \<^verbatim>\<open>Part\<close>) is not part of the sources. Its objects are
  represented by the data the generators hand to it: a wire by the point lists its
  B-spline edges interpolate, a solid by its boundary faces, every other result by the
  request that builds it.
\<close>


text \<open>
  An edge is a B-spline interpolating a point list (\<^verbatim>\<open>BSplineCurve.interpolate\<close>) or the arc
  requested from \<^verbatim>\<open>part_arc_from_points_and_center\<close> with its start point, end point and
  centre. A wire is a list of edges.
\<close>

datatype edge = BSpline "vec3 list" | Arc vec3 vec3 vec3 | Circle real vec3

type_synonym wire = "edge list"

text \<open>\<^verbatim>\<open>fcvec\<close> on a two-component point: \<^verbatim>\<open>App.Vector(x[0], x[1], 0)\<close>.\<close>

definition fcvec :: "point \<Rightarrow> vec3" where
  "fcvec x = (fst x, snd x, 0)"

text \<open>\<^verbatim>\<open>make_bspline_wire\<close>, and the same loop written out in the involute and cycloid classes.\<close>

definition make_bspline_wire :: "point list list \<Rightarrow> wire" where
  "make_bspline_wire pts = map (\<lambda>i. BSpline (map fcvec i)) pts"

text \<open>
  A face, as far as \<^verbatim>\<open>on_mirror_plane\<close> and the transformations look at it: its normal at
  parameter (0, 0), its centre of mass and the vertices of its boundary.
\<close>

record face =
  normalAt00 :: vec3
  CenterOfMass :: vec3
  Vertexes :: "vec3 list"

record helix =
  helix_pitch :: real
  helix_height :: real
  helix_radius :: real
  helix_angle :: real
  helix_lefthanded :: bool

datatype shape =
    WireShape wire
  | FaceShape wire
  | FaceOfWires "wire list"
  | Cut shape shape
  | Extrusion shape real
  | Translated real shape
  | Transformed matrix shape
  | Loft "wire list"
  | Solid "face list"
  | Cylinder real real
  | Compound "shape list"

definition cross :: "vec3 \<Rightarrow> vec3 \<Rightarrow> vec3" where
  "cross a b = (case a of (a1, a2, a3) \<Rightarrow> case b of (b1, b2, b3) \<Rightarrow>
     (a2 * b3 - a3 * b2, a3 * b1 - a1 * b3, a1 * b2 - a2 * b1))"

definition Length :: "vec3 \<Rightarrow> real" where
  "Length a = (case a of (a1, a2, a3) \<Rightarrow> sqrt (a1 * a1 + a2 * a2 + a3 * a3))"

definition vec_z :: "vec3 \<Rightarrow> real" where
  "vec_z a = snd (snd a)"

text \<open>\<^verbatim>\<open>shape.mirror(base, normal)\<close> for the plane through the origin with normal (0, 0, 1).\<close>

definition mirror_vec :: "vec3 \<Rightarrow> vec3" where
  "mirror_vec a = (case a of (a1, a2, a3) \<Rightarrow> (a1, a2, - a3))"

definition mirror_face :: "face \<Rightarrow> face" where
  "mirror_face f = \<lparr>normalAt00 = mirror_vec (normalAt00 f),
                    CenterOfMass = mirror_vec (CenterOfMass f),
                    Vertexes = map mirror_vec (Vertexes f)\<rparr>"

text \<open>\<^verbatim>\<open>transformGeometry\<close> with a matrix that only moves along z.\<close>

definition move_z_vec :: "real \<Rightarrow> vec3 \<Rightarrow> vec3" where
  "move_z_vec dz a = (case a of (a1, a2, a3) \<Rightarrow> (a1, a2, a3 + dz))"

definition move_z_face :: "real \<Rightarrow> face \<Rightarrow> face" where
  "move_z_face dz f = \<lparr>normalAt00 = normalAt00 f,
                       CenterOfMass = move_z_vec dz (CenterOfMass f),
                       Vertexes = map (move_z_vec dz) (Vertexes f)\<rparr>"

text \<open>Mirroring at the horizontal plane of height \<open>c\<close>.\<close>

definition mirror_face_at :: "real \<Rightarrow> face \<Rightarrow> face" where
  "mirror_face_at c f = move_z_face c (mirror_face (move_z_face (- c) f))"

fun transform_edge :: "matrix \<Rightarrow> edge \<Rightarrow> edge" where
  "transform_edge M (BSpline ps) = BSpline (map (transform_vec M) ps)"
| "transform_edge M (Arc p1 p2 c) = Arc (transform_vec M p1) (transform_vec M p2) (transform_vec M c)"
| "transform_edge M (Circle r c) = Circle r (transform_vec M c)"

text \<open>\<^verbatim>\<open>wire.transformGeometry(mat)\<close>.\<close>

definition transformGeometry :: "matrix \<Rightarrow> wire \<Rightarrow> wire" where
  "transformGeometry M w = map (transform_edge M) w"

section \<open>Helical extrusion\<close>

definition on_mirror_plane :: "face \<Rightarrow> real \<Rightarrow> vec3 \<Rightarrow> real \<Rightarrow> bool" where
  "on_mirror_plane f z direction small_size =
     (Length (cross (normalAt00 f) direction) < small_size \<and>
      \<bar>vec_z (CenterOfMass f) - z\<bar> < small_size)"

definition small_size_default :: real where
  "small_size_default = 0.000001"

text \<open>The faces kept by the double-helix branch, before the final move.\<close>

definition double_helix_faces :: "face list \<Rightarrow> face list" where
  "double_helix_faces first_solid =
     filter (\<lambda>f. \<not> on_mirror_plane f 0 (0, 0, 1) small_size_default)
            (first_solid @ map mirror_face first_solid)"

text \<open>
  For stating the result of the double-helix branch: the faces of the half-height sweep
  along the helix of the given height and angle, without those on the mirror plane,
  moved up by half the height.
\<close>

definition half_sweep ::
  "(helix \<Rightarrow> wire \<Rightarrow> face list) \<Rightarrow> wire \<Rightarrow> real \<Rightarrow> real \<Rightarrow> face list" where
  "half_sweep makePipeShell wi hgt ang =
     map (move_z_face (0.5 * hgt))
       (filter (\<lambda>f. \<not> on_mirror_plane f 0 (0, 0, 1) small_size_default)
          (makePipeShell
             \<lparr>helix_pitch = hgt * 2 * pi / \<bar>ang\<bar>, helix_height = 0.5 * hgt,
              helix_radius = 10, helix_angle = 0, helix_lefthanded = (ang < 0)\<rparr> wi))"

text \<open>
  \<^verbatim>\<open>helicalextrusion(wire, height, angle, double_helix)\<close>. The sweep itself,
  \<^verbatim>\<open>makePipeShell\<close>, is the kernel's and a parameter here; it returns the faces of the
  swept solid. \<open>angle\<close> is a numpy float at both call sites, so the division raises nothing.
\<close>

definition helicalextrusion ::
  "(helix \<Rightarrow> wire \<Rightarrow> face list) \<Rightarrow> wire \<Rightarrow> real \<Rightarrow> real \<Rightarrow> bool \<Rightarrow> shape" where
  "helicalextrusion makePipeShell wi height angle double_helix =
     (let direction = (angle < 0) in
      if double_helix then
        (let first_spine = \<lparr>helix_pitch = height * 2 * pi / \<bar>angle\<bar>, helix_height = 0.5 * height,
                             helix_radius = 10, helix_angle = 0, helix_lefthanded = direction\<rparr>;
             first_solid = makePipeShell first_spine wi
         in Solid (map (move_z_face (0.5 * height)) (double_helix_faces first_solid)))
      else
        (let first_spine = \<lparr>helix_pitch = height * 2 * pi / \<bar>angle\<bar>, helix_height = height,
                             helix_radius = 10, helix_angle = 0, helix_lefthanded = direction\<rparr>
         in Solid (makePipeShell first_spine wi)))"

section \<open>InvoluteGear\<close>

record involute_fp =
  simple :: bool
  teeth :: int
  module :: real
  undercut :: bool
  shift :: real
  height :: real
  pressure_angle :: real
  clearance :: real
  numpoints :: int
  beta :: real
  double_helix :: bool
  backlash :: real
  reversed_backlash :: bool
  head :: real
  properties_from_tool :: bool

text \<open>The attributes \<^verbatim>\<open>generate_gear_shape\<close> sets on the tooth object \<^verbatim>\<open>fp.gear\<close>.\<close>

record involute_tooth =
  double_helix :: bool
  m_n :: real
  z :: int
  undercut :: bool
  shift :: real
  pressure_angle :: real
  beta :: real
  clearance :: real
  backlash :: real
  head :: real
  properties_from_tool :: bool

text \<open>What \<^verbatim>\<open>generate_gear_shape\<close> reads back from the tooth object after \<^verbatim>\<open>_update()\<close>.\<close>

record tooth_dims =
  dw :: real
  d :: real
  phipart :: real

definition involute_set_gear :: "involute_fp \<Rightarrow> involute_tooth" where
  "involute_set_gear fp =
     \<lparr>involute_tooth.double_helix = involute_fp.double_helix fp,
      m_n = module fp,
      z = teeth fp,
      involute_tooth.undercut = involute_fp.undercut fp,
      involute_tooth.shift = involute_fp.shift fp,
      involute_tooth.pressure_angle = involute_fp.pressure_angle fp * pi / 180,
      involute_tooth.beta = involute_fp.beta fp * pi / 180,
      involute_tooth.clearance = involute_fp.clearance fp,
      involute_tooth.backlash =
        gear_backlash (involute_fp.backlash fp) (reversed_backlash fp),
      involute_tooth.head = involute_fp.head fp,
      involute_tooth.properties_from_tool = involute_fp.properties_from_tool fp\<rparr>"

text \<open>
  Modelled from the spec: \<^verbatim>\<open>InvoluteTooth._update\<close> of the package \<^verbatim>\<open>pygears\<close>, which is
  not among the sources. The derived dimension calculator "returns DerivedDimensions or
  fails with InvalidParameter when module/teeth/pressure-angle are non-positive". The
  formulas of the dimensions themselves are the parameter \<open>dims\<close>.
\<close>

definition involute_update ::
  "(involute_tooth \<Rightarrow> tooth_dims) \<Rightarrow> involute_tooth \<Rightarrow> error + tooth_dims" where
  "involute_update dims g =
     (if m_n g \<le> 0 \<or> z g \<le> 0 \<or> involute_tooth.pressure_angle g \<le> 0
      then Inl InvalidParameter else Inr (dims g))"

text \<open>
  The outline of \<^verbatim>\<open>InvoluteGear.generate_gear_shape\<close>: update the tooth object, take its
  points, replicate. \<open>points\<close> (\<^verbatim>\<open>fp.gear.points\<close>) and \<open>rotation\<close> (of \<^verbatim>\<open>pygears._functions\<close>,
  a map on points for a given angle) are parameters.
\<close>

definition involute_outline ::
  "(involute_tooth \<Rightarrow> tooth_dims) \<Rightarrow> (involute_tooth \<Rightarrow> int \<Rightarrow> error + point list list) \<Rightarrow>
   (real \<Rightarrow> point \<Rightarrow> point) \<Rightarrow> involute_fp \<Rightarrow> error + (tooth_dims \<times> point list list)" where
  "involute_outline dims points rotation fp =
     (let gear = involute_set_gear fp in
      case involute_update dims gear of Inl e \<Rightarrow> Inl e | Inr dm \<Rightarrow>
      case points gear (numpoints fp) of Inl e \<Rightarrow> Inl e | Inr pts \<Rightarrow>
      case assemble_outline (z gear) (map (rotation (- phipart dm))) pts of
        Inl e \<Rightarrow> Inl e
      | Inr outline \<Rightarrow> Inr (dm, outline))"

definition involute_generate_gear_shape ::
  "(involute_tooth \<Rightarrow> tooth_dims) \<Rightarrow> (involute_tooth \<Rightarrow> int \<Rightarrow> error + point list list) \<Rightarrow>
   (real \<Rightarrow> point \<Rightarrow> point) \<Rightarrow> (helix \<Rightarrow> wire \<Rightarrow> face list) \<Rightarrow> involute_fp \<Rightarrow> error + shape" where
  "involute_generate_gear_shape dims points rotation makePipeShell fp =
     (case involute_outline dims points rotation fp of
        Inl e \<Rightarrow> Inl e
      | Inr (dm, pts) \<Rightarrow>
          Inr (if \<not> simple fp then
                 (let wi = make_bspline_wire pts in
                  if involute_fp.height fp = 0 then WireShape wi
                  else if involute_fp.beta fp = 0
                    then Extrusion (FaceShape wi) (involute_fp.height fp)
                  else helicalextrusion makePipeShell wi (involute_fp.height fp)
                         (involute_fp.height fp
                            * tan (involute_tooth.beta (involute_set_gear fp)) * 2 / d dm)
                         (involute_fp.double_helix fp))
               else Cylinder (dw dm / 2) (involute_fp.height fp)))"

section \<open>CycloidGear\<close>

record cycloid_fp =
  teeth :: int
  module :: real
  inner_diameter :: real
  outer_diameter :: real
  height :: real
  double_helix :: bool
  clearance :: real
  head :: real
  numpoints :: int
  beta :: real
  backlash :: real

record cycloid_tooth =
  m :: real
  z :: int
  z1 :: real
  z2 :: real
  clearance :: real
  head :: real
  backlash :: real

definition cycloid_set_gear :: "cycloid_fp \<Rightarrow> cycloid_tooth" where
  "cycloid_set_gear fp =
     \<lparr>m = cycloid_fp.module fp,
      cycloid_tooth.z = cycloid_fp.teeth fp,
      z1 = inner_diameter fp,
      z2 = outer_diameter fp,
      cycloid_tooth.clearance = cycloid_fp.clearance fp,
      cycloid_tooth.head = cycloid_fp.head fp,
      cycloid_tooth.backlash = cycloid_fp.backlash fp\<rparr>"

text \<open>
  \<^verbatim>\<open>CycloidGear.generate_gear_shape\<close>. The tooth object's \<^verbatim>\<open>_update\<close> and \<^verbatim>\<open>points\<close> are
  parameters.
\<close>

definition cycloid_outline ::
  "(cycloid_tooth \<Rightarrow> error + tooth_dims) \<Rightarrow> (cycloid_tooth \<Rightarrow> int \<Rightarrow> error + point list list) \<Rightarrow>
   (real \<Rightarrow> point \<Rightarrow> point) \<Rightarrow> cycloid_fp \<Rightarrow> error + (tooth_dims \<times> point list list)" where
  "cycloid_outline update points rotation fp =
     (let gear = cycloid_set_gear fp in
      case update gear of Inl e \<Rightarrow> Inl e | Inr dm \<Rightarrow>
      case points gear (cycloid_fp.numpoints fp) of Inl e \<Rightarrow> Inl e | Inr pts \<Rightarrow>
      case assemble_outline (cycloid_tooth.z gear) (map (rotation (- phipart dm))) pts of
        Inl e \<Rightarrow> Inl e
      | Inr outline \<Rightarrow> Inr (dm, outline))"

definition cycloid_generate_gear_shape ::
  "(cycloid_tooth \<Rightarrow> error + tooth_dims) \<Rightarrow> (cycloid_tooth \<Rightarrow> int \<Rightarrow> error + point list list) \<Rightarrow>
   (real \<Rightarrow> point \<Rightarrow> point) \<Rightarrow> (helix \<Rightarrow> wire \<Rightarrow> face list) \<Rightarrow> cycloid_fp \<Rightarrow> error + shape" where
  "cycloid_generate_gear_shape update points rotation makePipeShell fp =
     (case cycloid_outline update points rotation fp of
        Inl e \<Rightarrow> Inl e
      | Inr (dm, pts) \<Rightarrow>
          Inr (let wi = make_bspline_wire pts in
               if cycloid_fp.height fp = 0 then WireShape wi
               else if cycloid_fp.beta fp = 0
                 then Extrusion (FaceShape wi) (cycloid_fp.height fp)
               else helicalextrusion makePipeShell wi (cycloid_fp.height fp)
                      (cycloid_fp.height fp * tan (cycloid_fp.beta fp * pi / 180) * 2 / d dm)
                      (cycloid_fp.double_helix fp)))"

section \<open>TimingGear\<close>

datatype timing_type = gt2 | gt3 | gt5

record timing_data =
  gt_pitch :: real
  gt_u :: real
  gt_h :: real
  gt_H :: real
  gt_r0 :: real
  gt_r1 :: real
  gt_rs :: real
  gt_offset :: real

text \<open>The class attribute \<^verbatim>\<open>TimingGear.data\<close>.\<close>

fun data :: "timing_type \<Rightarrow> timing_data" where
  "data gt2 = \<lparr>gt_pitch = 2.0, gt_u = 0.254, gt_h = 0.75, gt_H = 1.38,
                gt_r0 = 0.555, gt_r1 = 1.0, gt_rs = 0.15, gt_offset = 0.40\<rparr>"
| "data gt3 = \<lparr>gt_pitch = 3.0, gt_u = 0.381, gt_h = 1.14, gt_H = 2.40,
                gt_r0 = 0.85, gt_r1 = 1.52, gt_rs = 0.25, gt_offset = 0.61\<rparr>"
| "data gt5 = \<lparr>gt_pitch = 5.0, gt_u = 0.5715, gt_h = 1.93, gt_H = 3.81,
                gt_r0 = 1.44, gt_r1 = 2.57, gt_rs = 0.416, gt_offset = 1.03\<rparr>"

record timing_fp =
  teeth :: int
  type :: timing_type
  height :: real

text \<open>
  \<^verbatim>\<open>phi_12 = np.arctan(np.sqrt(1. / (((r_12 - r_23) / offset) ** 2 - 1)))\<close>. The two
  divisions are between Python floats and raise on a zero divisor. \<^verbatim>\<open>np.sqrt\<close> of a
  negative number is nan and raises nothing; for the three entries of the table the
  argument is positive.
\<close>

definition timing_phi_12 :: "real \<Rightarrow> real \<Rightarrow> real \<Rightarrow> error + real" where
  "timing_phi_12 r_12 r_23 offset =
     (if offset = 0 then Inl ZeroDivisionError
      else if ((r_12 - r_23) / offset) ^ 2 - 1 = 0 then Inl ZeroDivisionError
      else Inr (arctan (sqrt (1 / (((r_12 - r_23) / offset) ^ 2 - 1)))))"

text \<open>The radicand and the denominator of the closed form for \<open>phi4\<close>, as written in the source.\<close>

definition phi4_radicand :: "real \<Rightarrow> real \<Rightarrow> real \<Rightarrow> real \<Rightarrow> real \<Rightarrow> real" where
  "phi4_radicand offset r5 r_34 r_23 m_23y =
     - (m_23y^4) - 2*m_23y^2*offset^2 +
     2*m_23y^2*r5^2 - 4*m_23y^2*r5*r_34 + 2*m_23y^2*r_23^2 +
     4*m_23y^2*r_23*r_34 + 4*m_23y^2*r_34^2 - offset^4 + 2*offset^2*r5^2 -
     4*offset^2*r5*r_34 + 2*offset^2*r_23^2 + 4*offset^2*r_23*r_34 + 4*offset^2*r_34^2 -
     r5^4 + 4*r5^3*r_34 + 2*r5^2*r_23^2 + 4*r5^2*r_23*r_34 -
     4*r5^2*r_34^2 - 4*r5*r_23^2*r_34 - 8*r5*r_23*r_34^2 - r_23^4 -
     4*r_23^3*r_34 - 4*r_23^2*r_34^2"

definition phi4_denominator :: "real \<Rightarrow> real \<Rightarrow> real \<Rightarrow> real \<Rightarrow> real \<Rightarrow> real" where
  "phi4_denominator offset r5 r_34 r_23 m_23y =
     m_23y^2 + 2*m_23y*r5 -
     2*m_23y*r_34 + offset^2 + r5^2 - 2*r5*r_34 - r_23^2 - 2*r_23*r_34"

text \<open>
  \<^verbatim>\<open>phi4 = 2*np.arctan((-2*offset*r5 + 2*offset*r_34 + np.sqrt(...)) / (...))\<close>. The
  operands are numpy floats: a negative radicand or a zero denominator gives nan or inf
  there and no exception; the real-valued expression below agrees with the source where
  the radicand is not negative and the denominator is not zero.
\<close>

definition timing_phi4 :: "real \<Rightarrow> real \<Rightarrow> real \<Rightarrow> real \<Rightarrow> real \<Rightarrow> real" where
  "timing_phi4 offset r5 r_34 r_23 m_23y =
     2 * arctan ((- 2*offset*r5 + 2*offset*r_34 + sqrt (phi4_radicand offset r5 r_34 r_23 m_23y))
                 / phi4_denominator offset r5 r_34 r_23 m_23y)"


text \<open>The quantities computed before the arcs are built.\<close>

definition timing_r5 :: "timing_data \<Rightarrow> int \<Rightarrow> real" where
  "timing_r5 gt_data nteeth = gt_pitch gt_data * real_of_int nteeth / pi / 2 - gt_u gt_data"

definition timing_m_12y :: "timing_data \<Rightarrow> int \<Rightarrow> real" where
  "timing_m_12y gt_data nteeth = timing_r5 gt_data nteeth - gt_h gt_data + gt_r0 gt_data"

definition timing_m_23y :: "timing_data \<Rightarrow> int \<Rightarrow> real \<Rightarrow> real" where
  "timing_m_23y gt_data nteeth phi_12 =
     gt_offset gt_data / tan phi_12 + timing_m_12y gt_data nteeth"

definition mir :: "point \<Rightarrow> point" where
  "mir x = (- 1 * fst x, 1 * snd x)"

definition part_arc_from_points_and_center :: "point \<Rightarrow> point \<Rightarrow> point \<Rightarrow> edge" where
  "part_arc_from_points_and_center p_1 p_2 c = Arc (fcvec p_1) (fcvec p_2) (fcvec c)"

text \<open>
  One tooth of \<^verbatim>\<open>TimingGear.generate_gear_shape\<close>: the six arcs. \<open>reflection\<close> (of
  \<^verbatim>\<open>pygears._functions\<close>) is a parameter.
\<close>

definition timing_tooth ::
  "(real \<Rightarrow> point \<Rightarrow> point) \<Rightarrow> timing_data \<Rightarrow> int \<Rightarrow> error + wire" where
  "timing_tooth reflection gt_data nteeth =
     (let r_12 = gt_r0 gt_data; r_23 = gt_r1 gt_data; r_34 = gt_rs gt_data;
          offset = gt_offset gt_data
      in case timing_phi_12 r_12 r_23 offset of Inl e \<Rightarrow> Inl e | Inr phi_12 \<Rightarrow>
         (let r5 = timing_r5 gt_data nteeth; r4 = r5;
              m_12 = (0, timing_m_12y gt_data nteeth);
              m_23 = (offset, timing_m_23y gt_data nteeth phi_12);
              m_23y = snd m_23;
              phi4 = timing_phi4 offset r5 r_34 r_23 m_23y
          in if nteeth = 0 then Inl ZeroDivisionError
             else
              (let phi5 = pi / real_of_int nteeth;
                   m_34 = ((r5 - r_34) * (- sin phi4), (r5 - r_34) * cos phi4);
                   x2 = (- r_12 * sin phi_12, snd m_12 - r_12 * cos phi_12)
               in if r_34 + r_23 = 0 then Inl ZeroDivisionError
                  else
                   (let x3 = (fst m_34 + r_34 / (r_34 + r_23) * (fst m_23 - fst m_34),
                              snd m_34 + r_34 / (r_34 + r_23) * (snd m_23 - snd m_34));
                        x4 = (r4 * (- sin phi4), r4 * cos phi4);
                        x6 = reflection (- phi5 - pi / 2) x4;
                        xn2 = mir x2; xn3 = mir x3; xn4 = mir x4;
                        mn_34 = mir m_34; mn_23 = mir m_23
                    in Inr [part_arc_from_points_and_center xn4 xn3 mn_34,
                            part_arc_from_points_and_center xn3 xn2 mn_23,
                            part_arc_from_points_and_center xn2 x2 m_12,
                            part_arc_from_points_and_center x2 x3 m_23,
                            part_arc_from_points_and_center x3 x4 m_34,
                            part_arc_from_points_and_center x4 x6 (0, 0)]))))"

text \<open>The loop \<^verbatim>\<open>for _ in range(fp.teeth - 1)\<close> that collects the rotated wires.\<close>

fun timing_wires :: "nat \<Rightarrow> matrix \<Rightarrow> wire \<Rightarrow> wire list \<Rightarrow> wire list" where
  "timing_wires 0 rot w wires = wires"
| "timing_wires (Suc k) rot w wires =
     (let w' = transformGeometry rot w in timing_wires k rot w' (wires @ [w']))"

text \<open>The wire \<^verbatim>\<open>wi = Part.Wire(wires)\<close> of all teeth.\<close>

definition timing_outline :: "(real \<Rightarrow> point \<Rightarrow> point) \<Rightarrow> timing_fp \<Rightarrow> error + wire" where
  "timing_outline reflection fp =
     (case timing_tooth reflection (data (type fp)) (timing_fp.teeth fp) of
        Inl e \<Rightarrow> Inl e
      | Inr w \<Rightarrow>
          (let rot = rotateZ (pi * 2 / real_of_int (timing_fp.teeth fp)) Matrix;
               wires = timing_wires (nat (timing_fp.teeth fp - 1)) rot w [w]
           in Inr (concat wires)))"

definition timing_generate_gear_shape ::
  "(real \<Rightarrow> point \<Rightarrow> point) \<Rightarrow> timing_fp \<Rightarrow> error + shape" where
  "timing_generate_gear_shape reflection fp =
     (case timing_outline reflection fp of
        Inl e \<Rightarrow> Inl e
      | Inr wi \<Rightarrow>
          Inr (if timing_fp.height fp = 0 then WireShape wi
               else Extrusion (FaceShape wi) (timing_fp.height fp)))"

section \<open>BevelGear\<close>

record bevel_fp =
  teeth :: int
  height :: real
  pitch_angle :: real
  pressure_angle :: real
  module :: real
  clearance :: real
  numpoints :: int
  reset_origin :: bool
  backlash :: real
  beta :: real
  has_version :: bool

record bevel_tooth =
  z :: int
  module :: real
  pressure_angle :: real
  pitch_angle :: real
  backlash :: real
  clearance :: real

text \<open>
  \<^verbatim>\<open>scale = fp.module.Value * fp.gear.z / 2 / np.tan(fp.pitch_angle.Value * np.pi / 180)\<close>.
  The divisor is a numpy float: a zero there gives inf or nan and raises nothing.
\<close>

definition bevel_scale :: "bevel_fp \<Rightarrow> real" where
  "bevel_scale fp =
     bevel_fp.module fp * real_of_int (bevel_fp.teeth fp) / 2
       / tan (bevel_fp.pitch_angle fp * pi / 180)"

definition bevel_set_gear :: "bevel_fp \<Rightarrow> bevel_tooth" where
  "bevel_set_gear fp =
     \<lparr>bevel_tooth.z = bevel_fp.teeth fp,
      bevel_tooth.module = bevel_fp.module fp,
      bevel_tooth.pressure_angle = (90 - bevel_fp.pressure_angle fp) * pi / 180,
      bevel_tooth.pitch_angle = bevel_fp.pitch_angle fp * pi / 180,
      bevel_tooth.backlash = bevel_fp.backlash fp,
      bevel_tooth.clearance = bevel_fp.clearance fp / bevel_scale fp\<rparr>"

text \<open>
  Modelled from the spec: \<^verbatim>\<open>BevelTooth._update\<close> of the package \<^verbatim>\<open>pygears\<close>, which is not
  among the sources. The derived dimension calculator "fails with InvalidParameter when
  module/teeth/pressure-angle are non-positive or pitch-angle is out of (0, pi/4) for
  bevel gears".
\<close>

definition bevel_update :: "bevel_tooth \<Rightarrow> error + unit" where
  "bevel_update g =
     (if bevel_tooth.module g \<le> 0 \<or> bevel_tooth.z g \<le> 0 \<or> bevel_tooth.pressure_angle g \<le> 0
         \<or> \<not> (0 < bevel_tooth.pitch_angle g \<and> bevel_tooth.pitch_angle g < pi / 4)
      then Inl InvalidParameter else Inr ())"

definition scale_vec :: "real \<Rightarrow> vec3 \<Rightarrow> vec3" where
  "scale_vec c v = (case v of (vx, vy, vz) \<Rightarrow> (c * vx, c * vy, c * vz))"

definition norm3 :: "vec3 \<Rightarrow> real" where
  "norm3 v = (case v of (vx, vy, vz) \<Rightarrow> sqrt (vx * vx + vy * vy + vz * vz))"

definition spherical_rot :: "(real \<Rightarrow> vec3 \<Rightarrow> vec3) \<Rightarrow> vec3 \<Rightarrow> real \<Rightarrow> vec3" where
  "spherical_rot rotation3D pnt phi = (let new_phi = sqrt (norm3 pnt) * phi in rotation3D new_phi pnt)"

text \<open>\<^verbatim>\<open>np.linspace(start, stop, num)\<close> for \<open>num \<ge> 2\<close>.\<close>

definition linspace :: "real \<Rightarrow> real \<Rightarrow> nat \<Rightarrow> real list" where
  "linspace start stop num = map (\<lambda>i. start + real i * ((stop - start) / real (num - 1))) [0 ..< num]"

text \<open>\<^verbatim>\<open>make_bspline_wire\<close> on three-component points, where \<^verbatim>\<open>fcvec\<close> keeps all components.\<close>

definition make_bspline_wire3 :: "vec3 list list \<Rightarrow> wire" where
  "make_bspline_wire3 pts = map BSpline pts"

text \<open>
  \<^verbatim>\<open>BevelGear.generate_gear_shape\<close>. \<open>points\<close> (\<^verbatim>\<open>fp.gear.points\<close>) and \<open>rotation3D\<close> are
  parameters. \<open>has_version\<close> stands for \<^verbatim>\<open>"version" in fp.PropertiesList\<close>.
\<close>

definition bevel_generate_gear_shape ::
  "(bevel_tooth \<Rightarrow> int \<Rightarrow> error + vec3 list list) \<Rightarrow> (real \<Rightarrow> vec3 \<Rightarrow> vec3) \<Rightarrow>
   bevel_fp \<Rightarrow> error + shape" where
  "bevel_generate_gear_shape points rotation3D fp =
     (let gear = bevel_set_gear fp; scale = bevel_scale fp in
      case bevel_update gear of Inl e \<Rightarrow> Inl e | Inr _ \<Rightarrow>
      case points gear (bevel_fp.numpoints fp) of Inl e \<Rightarrow> Inl e | Inr pts0 \<Rightarrow>
      if bevel_fp.teeth fp = 0 then Inl ZeroDivisionError
      else
        (case assemble_outline (bevel_tooth.z gear)
                (map (rotation3D (2 * pi / real_of_int (bevel_fp.teeth fp)))) pts0 of
           Inl e \<Rightarrow> Inl e
         | Inr pts \<Rightarrow>
            (let scale_0 = (if \<not> has_version fp then scale - bevel_fp.height fp / 2
                            else scale - bevel_fp.height fp);
                 scale_1 = (if \<not> has_version fp then scale + bevel_fp.height fp / 2 else scale);
                 wires =
                   (if bevel_fp.beta fp = 0 then
                      [make_bspline_wire3 (map (map (scale_vec scale_0)) pts),
                       make_bspline_wire3 (map (map (scale_vec scale_1)) pts)]
                    else
                      map (\<lambda>scale_i.
                             (let angle = bevel_fp.beta fp * pi / 180 * sin (pi / 4)
                                            / sin (bevel_fp.pitch_angle fp * pi / 180)
                              in make_bspline_wire3
                                   (map (map (\<lambda>pnt. spherical_rot rotation3D (scale_vec scale_i pnt) angle))
                                        pts)))
                          (linspace scale_0 scale_1 20));
                 shape = Loft wires
             in Inr (if reset_origin fp
                     then Transformed (move (0, 0, scale_1) (Matrix\<lparr>A33 := - 1\<rparr>)) shape
                     else shape))))"

section \<open>HypoCycloidGear\<close>

record hypo_fp =
  pin_circle_radius :: real
  roller_diameter :: real
  eccentricity :: real
  pressure_angle_lim :: real
  pressure_angle_offset :: real
  teeth_number :: int
  segment_count :: int
  hole_radius :: real
  show_pins :: bool
  pin_height :: real
  center_pins :: bool
  show_disk0 :: bool
  show_disk1 :: bool
  disk_height :: real

text \<open>\<^verbatim>\<open>math.atan2(y, x)\<close> on real numbers.\<close>

definition atan2 :: "real \<Rightarrow> real \<Rightarrow> real" where
  "atan2 y x =
     (if 0 < x then arctan (y / x)
      else if x < 0 then (if 0 \<le> y then arctan (y / x) + pi else arctan (y / x) - pi)
      else if 0 < y then pi / 2
      else if y < 0 then - pi / 2
      else 0)"

definition to_polar :: "real \<Rightarrow> real \<Rightarrow> real \<times> real" where
  "to_polar x y = (sqrt (x^2 + y^2), atan2 y x)"

definition to_rect :: "real \<Rightarrow> real \<Rightarrow> real \<times> real" where
  "to_rect r a = (r * cos a, r * sin a)"

text \<open>
  The \<^verbatim>\<open>calc\<close> methods compute in floating point. Their arithmetic is not fixed here:
  every operation on floats is a field of \<open>float_ops\<close>, so that what is proved of them
  holds whatever the rounding. \<open>f_pow\<close> is \<^verbatim>\<open>**\<close>, \<open>f_pi\<close> is \<^verbatim>\<open>math.pi\<close>. A division raises
  \<^verbatim>\<open>ZeroDivisionError\<close> on a zero divisor and \<^verbatim>\<open>math.asin\<close> raises \<^verbatim>\<open>ValueError\<close> outside
  [-1, 1]. A negative base under \<^verbatim>\<open>** 0.5\<close>, which would give a complex number, is not
  modelled.
\<close>

record float_ops =
  f_add :: "real \<Rightarrow> real \<Rightarrow> real"
  f_sub :: "real \<Rightarrow> real \<Rightarrow> real"
  f_mul :: "real \<Rightarrow> real \<Rightarrow> real"
  f_div :: "real \<Rightarrow> real \<Rightarrow> real"
  f_pow :: "real \<Rightarrow> real \<Rightarrow> real"
  f_sin :: "real \<Rightarrow> real"
  f_cos :: "real \<Rightarrow> real"
  f_asin :: "real \<Rightarrow> real"
  f_atan :: "real \<Rightarrow> real"
  f_pi :: real

text \<open>The arithmetic without rounding.\<close>

definition exact_pow :: "real \<Rightarrow> real \<Rightarrow> real" where
  "exact_pow x y = (if y = 2 then x^2 else if y = 1/2 then sqrt x else x powr y)"

definition exact_ops :: float_ops where
  "exact_ops = \<lparr>f_add = (+), f_sub = (-), f_mul = (*), f_div = (/), f_pow = exact_pow,
                 f_sin = sin, f_cos = cos, f_asin = arcsin, f_atan = arctan, f_pi = pi\<rparr>"

definition calcyp :: "float_ops \<Rightarrow> real \<Rightarrow> real \<Rightarrow> real \<Rightarrow> int \<Rightarrow> error + real" where
  "calcyp fl p a e n =
     (let na = f_mul fl (real_of_int n) a;
          np = f_mul fl (real_of_int n) p;
          en = f_mul fl e (real_of_int (n + 1))
      in if en = 0 then Inl ZeroDivisionError
         else (let den = f_add fl (f_cos fl na) (f_div fl np en)
               in if den = 0 then Inl ZeroDivisionError
                  else Inr (f_atan fl (f_div fl (f_sin fl na) den))))"

definition calc_x :: "float_ops \<Rightarrow> real \<Rightarrow> real \<Rightarrow> real \<Rightarrow> int \<Rightarrow> real \<Rightarrow> error + real" where
  "calc_x fl p dd e n a =
     (case calcyp fl p a e n of Inl err \<Rightarrow> Inl err
      | Inr yp \<Rightarrow>
          Inr (f_sub fl
                 (f_add fl (f_mul fl (f_mul fl (real_of_int n) p) (f_cos fl a))
                           (f_mul fl e (f_cos fl (f_mul fl (real_of_int (n + 1)) a))))
                 (f_mul fl (f_div fl dd 2) (f_cos fl (f_add fl yp a)))))"

definition calc_y :: "float_ops \<Rightarrow> real \<Rightarrow> real \<Rightarrow> real \<Rightarrow> int \<Rightarrow> real \<Rightarrow> error + real" where
  "calc_y fl p dd e n a =
     (case calcyp fl p a e n of Inl err \<Rightarrow> Inl err
      | Inr yp \<Rightarrow>
          Inr (f_sub fl
                 (f_add fl (f_mul fl (f_mul fl (real_of_int n) p) (f_sin fl a))
                           (f_mul fl e (f_sin fl (f_mul fl (real_of_int (n + 1)) a))))
                 (f_mul fl (f_div fl dd 2) (f_sin fl (f_add fl yp a)))))"

definition calc_pressure_angle :: "float_ops \<Rightarrow> real \<Rightarrow> real \<Rightarrow> int \<Rightarrow> real \<Rightarrow> error + real" where
  "calc_pressure_angle fl p dd n a =
     (let ex = f_pow fl 2 0.5;
          r3 = f_mul fl p (real_of_int n)
      in if ex = 0 then Inl ZeroDivisionError
         else
          (let rg = f_div fl r3 ex;
               pp = f_sub fl
                      (f_mul fl rg
                         (f_pow fl
                            (f_sub fl (f_add fl (f_pow fl ex 2) 1)
                                      (f_mul fl (f_mul fl 2 ex) (f_cos fl a)))
                            0.5))
                      (f_div fl dd 2);
               num = f_sub fl (f_mul fl r3 (f_cos fl a)) rg;
               den = f_add fl pp (f_div fl dd 2)
           in if den = 0 then Inl ZeroDivisionError
              else if \<bar>f_div fl num den\<bar> > 1 then Inl ValueError
              else if f_pi fl = 0 then Inl ZeroDivisionError
              else Inr (f_div fl (f_mul fl (f_asin fl (f_div fl num den)) 180) (f_pi fl))))"

definition calc_pressure_limit ::
  "float_ops \<Rightarrow> real \<Rightarrow> real \<Rightarrow> real \<Rightarrow> int \<Rightarrow> real \<Rightarrow> error + real" where
  "calc_pressure_limit fl p dd e n a =
     (let ex = f_pow fl 2 0.5;
          r3 = f_mul fl p (real_of_int n)
      in if ex = 0 then Inl ZeroDivisionError
         else
          (let rg = f_div fl r3 ex;
               q = f_pow fl
                     (f_sub fl (f_add fl (f_pow fl r3 2) (f_pow fl rg 2))
                               (f_mul fl (f_mul fl (f_mul fl 2 r3) rg) (f_cos fl a)))
                     0.5
           in if q = 0 then Inl ZeroDivisionError
              else
               (let x = f_add fl (f_sub fl rg e)
                          (f_div fl
                             (f_mul fl (f_sub fl q (f_div fl dd 2))
                                       (f_sub fl (f_mul fl r3 (f_cos fl a)) rg))
                             q);
                    y = f_div fl
                          (f_mul fl (f_mul fl (f_sub fl q (f_div fl dd 2)) r3) (f_sin fl a))
                          q
                in Inr (f_pow fl (f_add fl (f_pow fl x 2) (f_pow fl y 2)) 0.5))))"

definition check_limit :: "real \<Rightarrow> real \<Rightarrow> real \<Rightarrow> real \<Rightarrow> real \<Rightarrow> real \<times> real" where
  "check_limit x y maxrad minrad offset =
     (case to_polar x y of (r, a) \<Rightarrow>
        if r > maxrad \<or> r < minrad then to_rect (r - offset) a else (x, y))"

text \<open>
  With the arithmetic without rounding and \<open>p * n\<close> other than 0,
  \<open>calc_pressure_angle\<close> returns this value (lemma \<open>calc_pressure_angle_exact\<close> below); it
  is used for the concrete instances only.
\<close>

definition pa_value :: "real \<Rightarrow> real" where
  "pa_value a = arcsin ((sqrt 2 * cos a - 1) / sqrt (3 - 2 * sqrt 2 * cos a)) * 180 / pi"

text \<open>\<^verbatim>\<open>v * math.pi / 180.\<close>: degrees to radians.\<close>

definition radians :: "float_ops \<Rightarrow> real \<Rightarrow> real" where
  "radians fl v = f_div fl (f_mul fl v (f_pi fl)) 180"

text \<open>
  The loop \<^verbatim>\<open>for i in range(0, 180)\<close> that looks for the pressure angle limits; \<open>f i\<close> is
  the pressure angle at \<open>i\<close> degrees, the state is \<open>(minAngle, maxAngle)\<close>.
\<close>

fun angle_scan ::
  "(nat \<Rightarrow> error + real) \<Rightarrow> real \<Rightarrow> nat list \<Rightarrow> real \<times> real \<Rightarrow> error + real \<times> real" where
  "angle_scan f ang [] st = Inr st"
| "angle_scan f ang (i # is) st =
     (case f i of Inl e \<Rightarrow> Inl e
      | Inr x \<Rightarrow>
          (let minAngle = (if x < ang \<and> fst st < 0 then real i else fst st);
               maxAngle = (if x < - ang \<and> snd st < 0 then real_of_int (int i - 1) else snd st)
           in angle_scan f ang is (minAngle, maxAngle)))"

definition limit_angles :: "float_ops \<Rightarrow> real \<Rightarrow> real \<Rightarrow> int \<Rightarrow> real \<Rightarrow> error + real \<times> real" where
  "limit_angles fl p dd n ang =
     angle_scan (\<lambda>i. calc_pressure_angle fl p dd n (radians fl (real i))) ang [0 ..< 180] (- 1, - 1)"

text \<open>\<open>(minRadius, maxRadius)\<close>.\<close>

definition limit_radii ::
  "float_ops \<Rightarrow> real \<Rightarrow> real \<Rightarrow> real \<Rightarrow> int \<Rightarrow> real \<Rightarrow> error + real \<times> real" where
  "limit_radii fl p dd e n ang =
     (case limit_angles fl p dd n ang of Inl err \<Rightarrow> Inl err
      | Inr (minAngle, maxAngle) \<Rightarrow>
          (case calc_pressure_limit fl p dd e n (radians fl minAngle) of Inl err \<Rightarrow> Inl err
           | Inr minRadius \<Rightarrow>
              (case calc_pressure_limit fl p dd e n (radians fl maxAngle) of Inl err \<Rightarrow> Inl err
               | Inr maxRadius \<Rightarrow> Inr (minRadius, maxRadius))))"

text \<open>One point of the cam profile, shifted in -x by the eccentricity.\<close>

definition cam_point ::
  "float_ops \<Rightarrow> real \<Rightarrow> real \<Rightarrow> real \<Rightarrow> int \<Rightarrow> real \<Rightarrow> real \<Rightarrow> real \<Rightarrow> real \<Rightarrow> error + vec3" where
  "cam_point fl p dd e n maxRadius minRadius c a =
     (case calc_x fl p dd e n a of Inl err \<Rightarrow> Inl err
      | Inr x \<Rightarrow>
         (case calc_y fl p dd e n a of Inl err \<Rightarrow> Inl err
          | Inr y \<Rightarrow>
             (case check_limit x y maxRadius minRadius c of
                (x', y') \<Rightarrow> Inr (f_sub fl x' e, y', 0))))"

fun map_err :: "('a \<Rightarrow> error + 'b) \<Rightarrow> 'a list \<Rightarrow> error + 'b list" where
  "map_err f [] = Inr []"
| "map_err f (x # xs) =
     (case f x of Inl e \<Rightarrow> Inl e
      | Inr y \<Rightarrow> (case map_err f xs of Inl e \<Rightarrow> Inl e | Inr ys \<Rightarrow> Inr (y # ys)))"

text \<open>The loop \<^verbatim>\<open>for _ in range(n)\<close> that collects the transformed copies of the profile.\<close>

fun cam_wires :: "nat \<Rightarrow> matrix \<Rightarrow> wire \<Rightarrow> wire list \<Rightarrow> wire list" where
  "cam_wires 0 mat wi wires = wires"
| "cam_wires (Suc k) mat wi wires =
     (let wi' = transformGeometry mat wi in cam_wires k mat wi' (wires @ [wi']))"

text \<open>
  The kernel calls that build the cam disk, before the \<^verbatim>\<open>show_\<close> flags are looked at:
  \<^verbatim>\<open>make_bspline_wire\<close>, \<^verbatim>\<open>Face(Wire(...))\<close> and \<^verbatim>\<open>cut\<close>. Each may raise; what it does is
  the kernel's and a parameter here.
\<close>

record kernel =
  k_bspline_wire :: "vec3 list list \<Rightarrow> error + wire"
  k_face :: "wire \<Rightarrow> error + shape"
  k_cut :: "shape \<Rightarrow> shape \<Rightarrow> error + shape"

text \<open>A kernel that accepts every request.\<close>

definition total_kernel :: kernel where
  "total_kernel = \<lparr>k_bspline_wire = (\<lambda>pts. Inr (map BSpline pts)),
                    k_face = (\<lambda>w. Inr (FaceShape w)),
                    k_cut = (\<lambda>a b. Inr (Cut a b))\<rparr>"

text \<open>The cam disk: profile, replication about the cam centre \<open>(-e, 0)\<close>, centre hole.\<close>

definition hypo_cam :: "kernel \<Rightarrow> float_ops \<Rightarrow> hypo_fp \<Rightarrow> error + shape" where
  "hypo_cam K fl fp =
     (let b = pin_circle_radius fp; dd = roller_diameter fp; e = eccentricity fp;
          n = teeth_number fp; s = segment_count fp; ang = pressure_angle_lim fp;
          c = pressure_angle_offset fp
      in if n = 0 then Inl ZeroDivisionError
         else
          (let p = f_div fl b (real_of_int n) in
           if s = 0 then Inl ZeroDivisionError
           else
            (let q = f_div fl (f_mul fl 2 (f_pi fl)) (real_of_int s) in
             case limit_radii fl p dd e n ang of Inl err \<Rightarrow> Inl err
             | Inr (minRadius, maxRadius) \<Rightarrow>
                (case map_err (\<lambda>i. cam_point fl p dd e n maxRadius minRadius c
                                     (f_div fl (f_mul fl q (real i)) (real_of_int n)))
                        (0 # map Suc [0 ..< nat s]) of
                   Inl err \<Rightarrow> Inl err
                 | Inr points \<Rightarrow>
                    (case k_bspline_wire K [points] of Inl err \<Rightarrow> Inl err
                     | Inr wi \<Rightarrow>
                        (let mat = move (- e, 0, 0)
                                     (rotateZ (f_div fl (f_mul fl 2 (f_pi fl)) (real_of_int n))
                                        (move (e, 0, 0) Matrix));
                             wires = cam_wires (nat n) mat wi []
                         in case k_face K (concat wires) of Inl err \<Rightarrow> Inl err
                            | Inr cam \<Rightarrow>
                                (if hole_radius fp \<noteq> 0 then
                                   (case k_face K [Circle (hole_radius fp) (- e, 0, 0)] of
                                      Inl err \<Rightarrow> Inl err
                                    | Inr centerCircle \<Rightarrow> k_cut K cam centerCircle)
                                 else Inr cam)))))))"

text \<open>The matrix applied to the copy of the cam that becomes the secondary disk.\<close>

definition second_cam_matrix :: "real \<Rightarrow> int \<Rightarrow> matrix" where
  "second_cam_matrix e n =
     move (e, 0, 0)
       ((if n mod 2 = 0 then rotateZ (pi / real_of_int n) else (\<lambda>M. M))
          (move (- e, 0, 0) (rotateZ pi Matrix)))"



definition hypo_disks :: "hypo_fp \<Rightarrow> shape \<Rightarrow> shape list" where
  "hypo_disks fp cam =
     (if show_disk0 fp
      then [if disk_height fp = 0 then cam else Extrusion cam (disk_height fp)]
      else [])
     @
     (if show_disk1 fp
      then (let second_cam = Transformed (second_cam_matrix (eccentricity fp) (teeth_number fp)) cam
            in [if disk_height fp = 0 then second_cam else Extrusion second_cam (- disk_height fp)])
      else [])"

text \<open>
  The pins. \<^verbatim>\<open>fp.pin_height != 0\<close> is taken as a comparison of the height's value. The
  pins are built only when \<^verbatim>\<open>show_pins\<close> is set, after the cam disk.
\<close>

definition hypo_pins :: "float_ops \<Rightarrow> hypo_fp \<Rightarrow> shape" where
  "hypo_pins fl fp =
     (let n = teeth_number fp; p = f_div fl (pin_circle_radius fp) (real_of_int n);
          dd = roller_diameter fp;
          pin_angle = (\<lambda>i. f_mul fl (f_div fl (f_mul fl 2 (f_pi fl)) (real_of_int (n + 1))) (real i));
          pins = FaceOfWires
                   (map (\<lambda>i. [Circle (f_div fl dd 2)
                                (f_mul fl (f_mul fl p (real_of_int n)) (f_cos fl (pin_angle i)),
                                 f_mul fl (f_mul fl p (real_of_int n)) (f_sin fl (pin_angle i)), 0)])
                        [0 ..< nat (n + 1)]);
          z_offset0 = f_div fl (- pin_height fp) 2;
          z_offset =
            (if center_pins fp then
               (if show_disk0 fp \<and> \<not> show_disk1 fp
                  then f_add fl z_offset0 (f_div fl (disk_height fp) 2)
                else if \<not> show_disk0 fp \<and> show_disk1 fp
                  then f_add fl z_offset0 (f_div fl (- disk_height fp) 2)
                else z_offset0)
             else z_offset0);
          pins' = (if z_offset \<noteq> 0 then Translated z_offset pins else pins)
      in if pin_height fp \<noteq> 0 then Extrusion pins' (pin_height fp) else pins')"

text \<open>
  \<^verbatim>\<open>HypoCycloidGear.generate_gear_shape\<close>; \<open>None\<close> is Python's \<^verbatim>\<open>None\<close>, returned when the
  function ends without reaching a \<^verbatim>\<open>return\<close>.
\<close>

definition hypo_generate_gear_shape ::
  "kernel \<Rightarrow> float_ops \<Rightarrow> hypo_fp \<Rightarrow> error + shape option" where
  "hypo_generate_gear_shape K fl fp =
     (case hypo_cam K fl fp of Inl err \<Rightarrow> Inl err
      | Inr cam \<Rightarrow>
          (let to_be_fused = hypo_disks fp cam @ (if show_pins fp then [hypo_pins fl fp] else [])
           in Inr (if to_be_fused \<noteq> [] then Some (Compound to_be_fused) else None)))"

section \<open>Properties of the outline assembly\<close>

lemma rotated_copy_Suc: "map (map r) (rotated_copy r pts i) = rotated_copy r pts (Suc i)"
  by (simp add: rotated_copy_def)

lemma rotated_copy_0: "rotated_copy r pts 0 = pts"
  by (simp add: rotated_copy_def)

lemma rotated_copy_nonempty:
  "pts \<noteq> [] \<Longrightarrow> rotated_copy r pts i \<noteq> []"
  by (simp add: rotated_copy_def)

lemma rotated_copy_hd_nonempty:
  "pts \<noteq> [] \<Longrightarrow> hd pts \<noteq> [] \<Longrightarrow> hd (rotated_copy r pts i) \<noteq> []"
  by (simp add: rotated_copy_def hd_map)

lemma rotated_copy_last_nonempty:
  "pts \<noteq> [] \<Longrightarrow> last pts \<noteq> [] \<Longrightarrow> last (rotated_copy r pts i) \<noteq> []"
  by (simp add: rotated_copy_def last_map)

lemma connector_ok:
  assumes "acc \<noteq> []" "last acc \<noteq> []" "nxt \<noteq> []" "hd nxt \<noteq> []"
  shows "connector acc nxt = Inr [last (last acc), hd (hd nxt)]"
  using assms by (simp add: connector_def py_last_def py_first_def)

lemma replicate_loop_unfold:
  assumes "pts \<noteq> []" "hd pts \<noteq> []" "last pts \<noteq> []"
    and "acc \<noteq> []" "last acc = last (rotated_copy r pts j)"
  shows "replicate_loop k (map r) (rotated_copy r pts j) acc =
           Inr (acc @ concat (map (\<lambda>i. joint r pts i (Suc i) # rotated_copy r pts (Suc i))
                                  [j ..< j + k]))"
  using assms(4,5)
proof (induction k arbitrary: j acc)
  case 0
  then show ?case by simp
next
  case (Suc k)
  let ?nxt = "rotated_copy r pts (Suc j)"
  have nxt: "?nxt \<noteq> []" "hd ?nxt \<noteq> []" "last ?nxt \<noteq> []"
    using assms(1-3)
    by (simp_all add: rotated_copy_nonempty rotated_copy_hd_nonempty rotated_copy_last_nonempty)
  have lacc: "last acc \<noteq> []"
    using Suc.prems(2) assms(1,3) by (simp add: rotated_copy_last_nonempty)
  have conn: "connector acc ?nxt = Inr (joint r pts j (Suc j))"
    using connector_ok [OF Suc.prems(1) lacc nxt(1,2)] Suc.prems(2)
    by (simp add: joint_def)
  let ?acc' = "(acc @ [joint r pts j (Suc j)]) @ ?nxt"
  have acc': "?acc' \<noteq> []" "last ?acc' = last ?nxt"
    using nxt(1) by simp_all
  have step: "replicate_loop (Suc k) (map r) (rotated_copy r pts j) acc =
                replicate_loop k (map r) ?nxt ?acc'"
    by (simp add: rotated_copy_Suc conn Let_def)
  have range: "[j ..< j + Suc k] = j # [Suc j ..< Suc j + k]"
    by (simp add: upt_rec)
  show ?case
    unfolding step Suc.IH [OF acc'] range by simp
qed

lemma assemble_outline_structure:
  assumes "pts \<noteq> []" "hd pts \<noteq> []" "last pts \<noteq> []"
  shows "assemble_outline nz (map r) pts =
           Inr (pts
                @ concat (map (\<lambda>i. joint r pts i (Suc i) # rotated_copy r pts (Suc i))
                              [0 ..< nat nz - 1])
                @ [joint r pts (nat nz - 1) 0])"
proof -
  let ?k = "nat (nz - 1)"
  let ?body = "concat (map (\<lambda>i. joint r pts i (Suc i) # rotated_copy r pts (Suc i)) [0 ..< ?k])"
  have k: "nat nz - 1 = ?k" by simp
  have loop: "replicate_loop ?k (map r) pts pts = Inr (pts @ ?body)"
    using replicate_loop_unfold [OF assms(1-3), of pts r 0 ?k] assms(1)
    by (simp add: rotated_copy_0)
  have last_eq: "last (pts @ ?body) = last (rotated_copy r pts ?k)"
  proof (cases ?k)
    case 0
    then show ?thesis by (simp add: rotated_copy_0)
  next
    case (Suc k')
    have ne: "rotated_copy r pts (Suc k') \<noteq> []"
      using assms(1) by (rule rotated_copy_nonempty)
    show ?thesis using ne by (simp add: Suc)
  qed
  have hd_eq: "hd (pts @ ?body) = hd (rotated_copy r pts 0)"
    using assms(1) by (simp add: rotated_copy_0)
  have lne: "last (pts @ ?body) \<noteq> []"
    unfolding last_eq using assms(1,3) by (rule rotated_copy_last_nonempty)
  have hne: "hd (pts @ ?body) \<noteq> []"
    using assms(1,2) by simp
  have ne: "pts @ ?body \<noteq> []" using assms(1) by simp
  have "connector (pts @ ?body) (pts @ ?body) =
          Inr [last (last (pts @ ?body)), hd (hd (pts @ ?body))]"
    by (rule connector_ok [OF ne lne ne hne])
  also have "\<dots> = Inr (joint r pts ?k 0)"
    unfolding last_eq hd_eq by (simp only: joint_def)
  finally have closing: "connector (pts @ ?body) (pts @ ?body) = Inr (joint r pts ?k 0)" .
  show ?thesis
    unfolding k by (simp add: assemble_outline_def loop closing)
qed

section \<open>Properties of the double helix\<close>

lemma mirror_on_plane:
  "on_mirror_plane (mirror_face f) 0 (0, 0, 1) s = on_mirror_plane f 0 (0, 0, 1) s"
  by (cases "normalAt00 f"; cases "CenterOfMass f")
     (simp add: on_mirror_plane_def mirror_face_def mirror_vec_def cross_def Length_def vec_z_def)

lemma filter_mirror:
  "filter (\<lambda>f. \<not> on_mirror_plane f 0 (0, 0, 1) s) (map mirror_face fs) =
   map mirror_face (filter (\<lambda>f. \<not> on_mirror_plane f 0 (0, 0, 1) s) fs)"
  by (induction fs) (simp_all add: mirror_on_plane)

lemma move_z_vec_inverse: "move_z_vec (- c) (move_z_vec c v) = v"
  by (cases v) (simp add: move_z_vec_def)

lemma move_z_face_inverse: "move_z_face (- c) (move_z_face c f) = f"
  by (simp add: move_z_face_def move_z_vec_inverse comp_def)

lemma move_mirror: "move_z_face c (mirror_face f) = mirror_face_at c (move_z_face c f)"
  by (simp add: mirror_face_at_def move_z_face_inverse)

lemma mirror_vec_twice: "mirror_vec (mirror_vec v) = v"
  by (cases v) (simp add: mirror_vec_def)

lemma mirror_face_twice: "mirror_face (mirror_face f) = f"
  by (simp add: mirror_face_def mirror_vec_twice comp_def)

lemma move_z_vec_inverse': "move_z_vec c (move_z_vec (- c) v) = v"
  by (cases v) (simp add: move_z_vec_def)

lemma move_z_face_inverse': "move_z_face c (move_z_face (- c) f) = f"
  by (simp add: move_z_face_def move_z_vec_inverse' comp_def)

lemma mirror_face_at_twice: "mirror_face_at c (mirror_face_at c f) = f"
  by (simp add: mirror_face_at_def move_z_face_inverse mirror_face_twice move_z_face_inverse')

lemma map_mirror_face_at_twice: "map (mirror_face_at c) (map (mirror_face_at c) fs) = fs"
  by (simp add: comp_def mirror_face_at_twice)

section \<open>Properties of the solid selection\<close>

lemma involute_height_zero:
  assumes "involute_fp.height fp = 0" "\<not> simple fp"
  shows "involute_generate_gear_shape dims points rotation mps fp =
           (case involute_outline dims points rotation fp of
              Inl e \<Rightarrow> Inl e
            | Inr (dm, pts) \<Rightarrow> Inr (WireShape (make_bspline_wire pts)))"
  using assms by (simp add: involute_generate_gear_shape_def split: sum.splits prod.splits)

lemma cycloid_height_zero:
  assumes "cycloid_fp.height cfp = 0"
  shows "cycloid_generate_gear_shape upd cpoints rotation mps cfp =
           (case cycloid_outline upd cpoints rotation cfp of
              Inl e \<Rightarrow> Inl e
            | Inr (dm, pts) \<Rightarrow> Inr (WireShape (make_bspline_wire pts)))"
  using assms by (simp add: cycloid_generate_gear_shape_def split: sum.splits prod.splits)

lemma timing_height_zero:
  assumes "timing_fp.height tfp = 0"
  shows "timing_generate_gear_shape reflect tfp =
           (case timing_outline reflect tfp of Inl e \<Rightarrow> Inl e | Inr wi \<Rightarrow> Inr (WireShape wi))"
  using assms by (simp add: timing_generate_gear_shape_def split: sum.splits)

text \<open>
  C2, as the code has it. With height 0 the involute generator (when its \<open>simple\<close> flag
  is off), the cycloid generator and the timing-belt generator return the bare outline
  wire whenever the outline itself could be computed; no face, extrusion or sweep is
  requested.
\<close>

theorem height_zero_returns_wire:
  "(involute_fp.height fp = 0 \<and> \<not> simple fp \<longrightarrow>
      involute_generate_gear_shape dims points rotation mps fp =
        (case involute_outline dims points rotation fp of
           Inl e \<Rightarrow> Inl e
         | Inr (dm, pts) \<Rightarrow> Inr (WireShape (make_bspline_wire pts))))
   \<and> (cycloid_fp.height cfp = 0 \<longrightarrow>
        cycloid_generate_gear_shape upd cpoints rotation mps cfp =
          (case cycloid_outline upd cpoints rotation cfp of
             Inl e \<Rightarrow> Inl e
           | Inr (dm, pts) \<Rightarrow> Inr (WireShape (make_bspline_wire pts))))
   \<and> (timing_fp.height tfp = 0 \<longrightarrow>
        timing_generate_gear_shape reflect tfp =
          (case timing_outline reflect tfp of Inl e \<Rightarrow> Inl e | Inr wi \<Rightarrow> Inr (WireShape wi)))"
  using involute_height_zero cycloid_height_zero timing_height_zero by blast

theorem height_zero_returns_wire_witness:
  "involute_generate_gear_shape
     (\<lambda>g. \<lparr>dw = m_n g * real_of_int (involute_tooth.z g),
           d = m_n g * real_of_int (involute_tooth.z g),
           phipart = 2 * pi / real_of_int (involute_tooth.z g)\<rparr>)
     (\<lambda>g n. Inr [[(0, 0), (1, 0)]]) (\<lambda>a p. p) (\<lambda>h w. [])
     \<lparr>simple = False, teeth = 1, module = 1, undercut = False, shift = 0, height = 0,
      pressure_angle = 20, clearance = 1/4, numpoints = 6, beta = 0, double_helix = False,
      backlash = 0, reversed_backlash = False, head = 0, properties_from_tool = False\<rparr>
     = Inr (WireShape [BSpline [(0, 0, 0), (1, 0, 0)], BSpline [(1, 0, 0), (0, 0, 0)]])
   \<and> cycloid_generate_gear_shape
     (\<lambda>g. Inr \<lparr>dw = 1, d = 1, phipart = 2 * pi\<rparr>)
     (\<lambda>g n. Inr [[(0, 0), (1, 0)]]) (\<lambda>a p. p) (\<lambda>h w. [])
     \<lparr>cycloid_fp.teeth = 1, module = 1, inner_diameter = 5, outer_diameter = 5, height = 0,
      double_helix = False, clearance = 1/4, head = 0, numpoints = 15, beta = 0, backlash = 0\<rparr>
     = Inr (WireShape [BSpline [(0, 0, 0), (1, 0, 0)], BSpline [(1, 0, 0), (0, 0, 0)]])
   \<and> timing_generate_gear_shape (\<lambda>a p. p) \<lparr>timing_fp.teeth = 15, type = gt2, height = 0\<rparr>
     = (case timing_outline (\<lambda>a p. p) \<lparr>timing_fp.teeth = 15, type = gt2, height = 0\<rparr> of
          Inl e \<Rightarrow> Inl e | Inr wi \<Rightarrow> Inr (WireShape wi))"
  using height_zero_returns_wire
    [where fp = "\<lparr>simple = False, teeth = 1, module = 1, undercut = False, shift = 0, height = 0,
        pressure_angle = 20, clearance = 1/4, numpoints = 6, beta = 0, double_helix = False,
        backlash = 0, reversed_backlash = False, head = 0, properties_from_tool = False\<rparr>"
      and dims = "\<lambda>g. \<lparr>dw = m_n g * real_of_int (involute_tooth.z g),
           d = m_n g * real_of_int (involute_tooth.z g),
           phipart = 2 * pi / real_of_int (involute_tooth.z g)\<rparr>"
      and points = "\<lambda>g n. Inr [[(0, 0), (1, 0)]]" and rotation = "\<lambda>a p. p" and mps = "\<lambda>h w. []"
      and cfp = "\<lparr>cycloid_fp.teeth = 1, module = 1, inner_diameter = 5, outer_diameter = 5,
        height = 0, double_helix = False, clearance = 1/4, head = 0, numpoints = 15, beta = 0,
        backlash = 0\<rparr>"
      and upd = "\<lambda>g. Inr \<lparr>dw = 1, d = 1, phipart = 2 * pi\<rparr>"
      and cpoints = "\<lambda>g n. Inr [[(0, 0), (1, 0)]]"
      and tfp = "\<lparr>timing_fp.teeth = 15, type = gt2, height = 0\<rparr>"
      and reflect = "\<lambda>a p. p"]
  by (simp add: involute_outline_def involute_set_gear_def involute_update_def
        cycloid_outline_def cycloid_set_gear_def
        assemble_outline_def connector_def py_last_def py_first_def Let_def not_le
        make_bspline_wire_def fcvec_def)

text \<open>
  The claim C2 as stated fails for an involute gear in \<open>simple\<close> mode: with height 0 a
  cylinder of height 0 is requested from the kernel, not the outline wire.
\<close>

theorem height_zero_simple_counterexample:
  "involute_fp.height
     \<lparr>simple = True, teeth = 1, module = 1, undercut = False, shift = 0, height = 0,
      pressure_angle = 20, clearance = 1/4, numpoints = 6, beta = 0, double_helix = False,
      backlash = 0, reversed_backlash = False, head = 0, properties_from_tool = False\<rparr> = 0
   \<and> involute_generate_gear_shape
     (\<lambda>g. \<lparr>dw = m_n g * real_of_int (involute_tooth.z g),
           d = m_n g * real_of_int (involute_tooth.z g),
           phipart = 2 * pi / real_of_int (involute_tooth.z g)\<rparr>)
     (\<lambda>g n. Inr [[(0, 0), (1, 0)]]) (\<lambda>a p. p) (\<lambda>h w. [])
     \<lparr>simple = True, teeth = 1, module = 1, undercut = False, shift = 0, height = 0,
      pressure_angle = 20, clearance = 1/4, numpoints = 6, beta = 0, double_helix = False,
      backlash = 0, reversed_backlash = False, head = 0, properties_from_tool = False\<rparr>
     = Inr (Cylinder (1/2) 0)"
  by (simp add: involute_generate_gear_shape_def involute_outline_def involute_set_gear_def
        involute_update_def assemble_outline_def connector_def py_last_def py_first_def
        Let_def not_le)

section \<open>Properties of the parameter check\<close>

lemma involute_teeth_zero:
  assumes "involute_fp.teeth fp = 0"
  shows "involute_generate_gear_shape dims points rotation mps fp = Inl InvalidParameter"
  using assms
  by (simp add: involute_generate_gear_shape_def involute_outline_def involute_update_def
        involute_set_gear_def Let_def)

lemma bevel_pitch_angle_zero:
  assumes "bevel_fp.pitch_angle bfp = 0"
  shows "bevel_generate_gear_shape bpoints rotation3D bfp = Inl InvalidParameter"
  using assms
  by (simp add: bevel_generate_gear_shape_def bevel_update_def bevel_set_gear_def Let_def)

section \<open>Properties of the secondary cam disk\<close>





section \<open>Properties of the radius clipping\<close>

lemma sqrt_sum_pos: "(x::real) \<noteq> 0 \<or> y \<noteq> 0 \<Longrightarrow> 0 < sqrt (x^2 + y^2)"
  by (simp add: sum_power2_gt_zero_iff)

lemma cos_atan2:
  assumes "x \<noteq> 0 \<or> y \<noteq> 0"
  shows "cos (atan2 y x) = x / sqrt (x^2 + y^2)"
proof -
  have pos: "0 < sqrt (x^2 + y^2)" using assms by (rule sqrt_sum_pos)
  consider "0 < x" | "x < 0" | "x = 0" by linarith
  then show ?thesis
  proof cases
    case 1
    have "sqrt (1 + (y / x)\<^sup>2) = sqrt ((x^2 + y^2) / x^2)"
      using 1 by (simp add: field_simps power2_eq_square)
    also have "\<dots> = sqrt (x^2 + y^2) / x"
      using 1 by (simp add: real_sqrt_divide)
    finally show ?thesis using 1 pos by (simp add: atan2_def cos_arctan)
  next
    case 2
    have "sqrt (1 + (y / x)\<^sup>2) = sqrt ((x^2 + y^2) / x^2)"
      using 2 by (simp add: field_simps power2_eq_square)
    also have "\<dots> = sqrt (x^2 + y^2) / - x"
      using 2 by (simp add: real_sqrt_divide)
    finally show ?thesis using 2 pos by (simp add: atan2_def cos_arctan)
  next
    case 3
    then show ?thesis using assms by (auto simp: atan2_def)
  qed
qed

lemma sin_atan2:
  assumes "x \<noteq> 0 \<or> y \<noteq> 0"
  shows "sin (atan2 y x) = y / sqrt (x^2 + y^2)"
proof -
  have pos: "0 < sqrt (x^2 + y^2)" using assms by (rule sqrt_sum_pos)
  consider "0 < x" | "x < 0" | "x = 0" by linarith
  then show ?thesis
  proof cases
    case 1
    have "sqrt (1 + (y / x)\<^sup>2) = sqrt ((x^2 + y^2) / x^2)"
      using 1 by (simp add: field_simps power2_eq_square)
    also have "\<dots> = sqrt (x^2 + y^2) / x"
      using 1 by (simp add: real_sqrt_divide)
    finally show ?thesis using 1 pos by (simp add: atan2_def sin_arctan)
  next
    case 2
    have "sqrt (1 + (y / x)\<^sup>2) = sqrt ((x^2 + y^2) / x^2)"
      using 2 by (simp add: field_simps power2_eq_square)
    also have "\<dots> = sqrt (x^2 + y^2) / - x"
      using 2 by (simp add: real_sqrt_divide)
    finally show ?thesis using 2 pos by (simp add: atan2_def sin_arctan)
  next
    case 3
    then have "y \<noteq> 0" using assms by simp
    then have "\<bar>y\<bar> = y \<or> \<bar>y\<bar> = - y" by linarith
    then show ?thesis using 3 \<open>y \<noteq> 0\<close> by (auto simp: atan2_def)
  qed
qed

lemma check_limit_inside:
  assumes "minrad \<le> sqrt (x^2 + y^2)" "sqrt (x^2 + y^2) \<le> maxrad"
  shows "check_limit x y maxrad minrad offset = (x, y)"
  using assms by (simp add: check_limit_def to_polar_def)

lemma check_limit_outside:
  assumes "sqrt (x^2 + y^2) > maxrad \<or> sqrt (x^2 + y^2) < minrad" "x \<noteq> 0 \<or> y \<noteq> 0"
  shows "check_limit x y maxrad minrad offset =
           ((sqrt (x^2 + y^2) - offset) * (x / sqrt (x^2 + y^2)),
            (sqrt (x^2 + y^2) - offset) * (y / sqrt (x^2 + y^2)))"
  using assms by (simp add: check_limit_def to_polar_def to_rect_def cos_atan2 sin_atan2)

lemma scaled_radius:
  assumes "x \<noteq> 0 \<or> y \<noteq> 0"
  shows "sqrt ((c * (x / sqrt (x^2 + y^2)))^2 + (c * (y / sqrt (x^2 + y^2)))^2) = \<bar>c\<bar>"
proof -
  have pos: "0 < x^2 + y^2" using assms by (simp add: sum_power2_gt_zero_iff)
  have "(c * (x / sqrt (x^2 + y^2)))^2 + (c * (y / sqrt (x^2 + y^2)))^2
          = c^2 * (x^2 / (x^2 + y^2)) + c^2 * (y^2 / (x^2 + y^2))"
    using pos by (simp add: power_mult_distrib power_divide)
  also have "\<dots> = c^2 * ((x^2 + y^2) / (x^2 + y^2))"
    by (simp only: add_divide_distrib distrib_left)
  also have "\<dots> = c^2" using assms by (auto simp: sum_power2_eq_zero_iff)
  finally show ?thesis by simp
qed

text \<open>
  C4, as the code has it. A point whose polar radius \<open>r\<close> lies inside the band
  \<open>[minRadius, maxRadius]\<close> is returned unchanged. A point outside the band, above it or
  below it, is moved along its ray from the origin to the radius \<open>r - offset\<close>: it keeps
  its direction and its new polar radius is \<open>|r - offset|\<close>.
\<close>

theorem check_limit_clips:
  "(minrad \<le> sqrt (x^2 + y^2) \<and> sqrt (x^2 + y^2) \<le> maxrad \<longrightarrow>
      check_limit x y maxrad minrad offset = (x, y))
   \<and> ((sqrt (x^2 + y^2) > maxrad \<or> sqrt (x^2 + y^2) < minrad) \<and> (x \<noteq> 0 \<or> y \<noteq> 0) \<longrightarrow>
        check_limit x y maxrad minrad offset =
          ((sqrt (x^2 + y^2) - offset) * (x / sqrt (x^2 + y^2)),
           (sqrt (x^2 + y^2) - offset) * (y / sqrt (x^2 + y^2)))
        \<and> fst (to_polar (fst (check_limit x y maxrad minrad offset))
                        (snd (check_limit x y maxrad minrad offset)))
            = \<bar>sqrt (x^2 + y^2) - offset\<bar>)"
  using check_limit_inside [of minrad x y maxrad offset]
        check_limit_outside [of maxrad x y minrad offset]
        scaled_radius [of x y "sqrt (x^2 + y^2) - offset"]
  by (auto simp: to_polar_def)

theorem check_limit_clips_witness:
  "check_limit 3 4 6 2 1 = (3, 4) \<and> check_limit 3 4 4 2 1 = (12/5, 16/5)
   \<and> check_limit 3 4 9 7 1 = (12/5, 16/5)"
proof -
  have "sqrt ((3::real)^2 + 4^2) = sqrt (5^2)" by simp
  also have "\<dots> = 5" by (simp only: real_sqrt_abs abs_numeral)
  finally have r: "sqrt ((3::real)^2 + 4^2) = 5" .
  show ?thesis
    using check_limit_clips [of 2 3 4 6 1] check_limit_clips [of 2 3 4 4 1]
          check_limit_clips [of 7 3 4 9 1]
    unfolding r by simp
qed

text \<open>
  The claim C4 as stated fails below the band: a point of radius 1 under a minimum radius
  of 2 is moved inward, to radius 1/2, not outward.
\<close>

theorem check_limit_below_counterexample:
  "fst (to_polar 1 0) < 2 \<and> check_limit 1 0 5 2 (1/2) = (1/2, 0)"
  by (simp add: check_limit_def to_polar_def to_rect_def atan2_def)

section \<open>Properties of the timing-belt tangency angle\<close>


















section \<open>Properties of the involute and cycloid outlines\<close>

lemma involute_outline_structure:
  assumes "involute_update dims (involute_set_gear fp) = Inr dm"
    and "points (involute_set_gear fp) (involute_fp.numpoints fp) = Inr pts"
    and "pts \<noteq> []" "hd pts \<noteq> []" "last pts \<noteq> []"
  shows "involute_outline dims points rotation fp =
           Inr (dm,
                pts
                @ concat (map (\<lambda>i. joint (rotation (- phipart dm)) pts i (Suc i)
                                     # rotated_copy (rotation (- phipart dm)) pts (Suc i))
                              [0 ..< nat (involute_fp.teeth fp) - 1])
                @ [joint (rotation (- phipart dm)) pts (nat (involute_fp.teeth fp) - 1) 0])"
proof -
  have z: "involute_tooth.z (involute_set_gear fp) = involute_fp.teeth fp"
    by (simp add: involute_set_gear_def)
  show ?thesis
    unfolding involute_outline_def Let_def assms(1,2) sum.case z
      assemble_outline_structure [OF assms(3-5)]
    by simp
qed

lemma cycloid_outline_structure:
  assumes "upd (cycloid_set_gear cfp) = Inr dm"
    and "cpoints (cycloid_set_gear cfp) (cycloid_fp.numpoints cfp) = Inr pts"
    and "pts \<noteq> []" "hd pts \<noteq> []" "last pts \<noteq> []"
  shows "cycloid_outline upd cpoints rotation cfp =
           Inr (dm,
                pts
                @ concat (map (\<lambda>i. joint (rotation (- phipart dm)) pts i (Suc i)
                                     # rotated_copy (rotation (- phipart dm)) pts (Suc i))
                              [0 ..< nat (cycloid_fp.teeth cfp) - 1])
                @ [joint (rotation (- phipart dm)) pts (nat (cycloid_fp.teeth cfp) - 1) 0])"
proof -
  have z: "cycloid_tooth.z (cycloid_set_gear cfp) = cycloid_fp.teeth cfp"
    by (simp add: cycloid_set_gear_def)
  show ?thesis
    unfolding cycloid_outline_def Let_def assms(1,2) sum.case z
      assemble_outline_structure [OF assms(3-5)]
    by simp
qed

text \<open>
  C1. In every involute or cycloid generation whose tooth object was updated to the
  dimensions \<open>dm\<close> and returned a profile \<open>pts\<close> that is not empty and whose first and last
  point lists are not empty, the outline is \<open>pts\<close>, followed for each \<open>i < teeth - 1\<close> by the
  two-point connector from the last point of the copy rotated \<open>i\<close> times to the first
  point of the copy rotated \<open>i + 1\<close> times and by that copy, and closed by the two-point
  segment from the last point of the last copy to the first point of \<open>pts\<close>. Each rotation
  is by the tooth pitch, \<open>rotation (- phipart)\<close>, and the connector end points are the
  rotated points themselves.
\<close>

theorem gear_outline_structure:
  "(involute_update dims (involute_set_gear fp) = Inr dm
    \<and> points (involute_set_gear fp) (involute_fp.numpoints fp) = Inr pts
    \<and> pts \<noteq> [] \<and> hd pts \<noteq> [] \<and> last pts \<noteq> [] \<longrightarrow>
      involute_outline dims points rotation fp =
        Inr (dm,
             pts
             @ concat (map (\<lambda>i. joint (rotation (- phipart dm)) pts i (Suc i)
                                  # rotated_copy (rotation (- phipart dm)) pts (Suc i))
                           [0 ..< nat (involute_fp.teeth fp) - 1])
             @ [joint (rotation (- phipart dm)) pts (nat (involute_fp.teeth fp) - 1) 0]))
   \<and> (upd (cycloid_set_gear cfp) = Inr cdm
      \<and> cpoints (cycloid_set_gear cfp) (cycloid_fp.numpoints cfp) = Inr cpts
      \<and> cpts \<noteq> [] \<and> hd cpts \<noteq> [] \<and> last cpts \<noteq> [] \<longrightarrow>
        cycloid_outline upd cpoints rotation cfp =
          Inr (cdm,
               cpts
               @ concat (map (\<lambda>i. joint (rotation (- phipart cdm)) cpts i (Suc i)
                                    # rotated_copy (rotation (- phipart cdm)) cpts (Suc i))
                             [0 ..< nat (cycloid_fp.teeth cfp) - 1])
               @ [joint (rotation (- phipart cdm)) cpts (nat (cycloid_fp.teeth cfp) - 1) 0]))"
  using involute_outline_structure [of dims fp dm points pts rotation]
        cycloid_outline_structure [of upd cfp cdm cpoints cpts rotation]
  by blast

theorem gear_outline_structure_witness:
  "involute_outline
     (\<lambda>g. \<lparr>dw = m_n g * real_of_int (involute_tooth.z g),
           d = m_n g * real_of_int (involute_tooth.z g),
           phipart = 2 * pi / real_of_int (involute_tooth.z g)\<rparr>)
     (\<lambda>g n. Inr [[(0, 0), (1, 0)], [(1, 0), (2, 0)]]) (\<lambda>a p. (fst p + 10, snd p))
     \<lparr>simple = False, teeth = 3, module = 1, undercut = False, shift = 0, height = 5,
      pressure_angle = 20, clearance = 1/4, numpoints = 6, beta = 0, double_helix = False,
      backlash = 0, reversed_backlash = False, head = 0, properties_from_tool = False\<rparr>
     = Inr (\<lparr>dw = 3, d = 3, phipart = 2 * pi / 3\<rparr>,
            [[(0, 0), (1, 0)], [(1, 0), (2, 0)], [(2, 0), (10, 0)],
             [(10, 0), (11, 0)], [(11, 0), (12, 0)], [(12, 0), (20, 0)],
             [(20, 0), (21, 0)], [(21, 0), (22, 0)], [(22, 0), (0, 0)]])
   \<and> cycloid_outline
     (\<lambda>g. Inr \<lparr>dw = 2, d = 2, phipart = pi\<rparr>)
     (\<lambda>g n. Inr [[(0, 0), (1, 0)]]) (\<lambda>a p. (fst p + 10, snd p))
     \<lparr>cycloid_fp.teeth = 2, module = 1, inner_diameter = 5, outer_diameter = 5, height = 5,
      double_helix = False, clearance = 1/4, head = 0, numpoints = 15, beta = 0, backlash = 0\<rparr>
     = Inr (\<lparr>dw = 2, d = 2, phipart = pi\<rparr>,
            [[(0, 0), (1, 0)], [(1, 0), (10, 0)], [(10, 0), (11, 0)], [(11, 0), (0, 0)]])"
  using gear_outline_structure
    [where fp = "\<lparr>simple = False, teeth = 3, module = 1, undercut = False, shift = 0, height = 5,
        pressure_angle = 20, clearance = 1/4, numpoints = 6, beta = 0, double_helix = False,
        backlash = 0, reversed_backlash = False, head = 0, properties_from_tool = False\<rparr>"
      and dims = "\<lambda>g. \<lparr>dw = m_n g * real_of_int (involute_tooth.z g),
           d = m_n g * real_of_int (involute_tooth.z g),
           phipart = 2 * pi / real_of_int (involute_tooth.z g)\<rparr>"
      and dm = "\<lparr>dw = 3, d = 3, phipart = 2 * pi / 3\<rparr>"
      and points = "\<lambda>g n. Inr [[(0, 0), (1, 0)], [(1, 0), (2, 0)]]"
      and pts = "[[(0, 0), (1, 0)], [(1, 0), (2, 0)]]"
      and rotation = "\<lambda>a p. (fst p + 10, snd p)"
      and cfp = "\<lparr>cycloid_fp.teeth = 2, module = 1, inner_diameter = 5, outer_diameter = 5,
        height = 5, double_helix = False, clearance = 1/4, head = 0, numpoints = 15, beta = 0,
        backlash = 0\<rparr>"
      and upd = "\<lambda>g. Inr \<lparr>dw = 2, d = 2, phipart = pi\<rparr>"
      and cdm = "\<lparr>dw = 2, d = 2, phipart = pi\<rparr>"
      and cpoints = "\<lambda>g n. Inr [[(0, 0), (1, 0)]]"
      and cpts = "[[(0, 0), (1, 0)]]"]
  by (simp add: involute_update_def involute_set_gear_def cycloid_set_gear_def
        joint_def rotated_copy_def upt_rec numeral_2_eq_2 numeral_3_eq_3 not_le)

section \<open>Properties of the backlash\<close>

lemma gear_backlash_factor:
  "gear_backlash b False = b \<and> gear_backlash b True = - b"
  by (simp add: gear_backlash_def)

text \<open>
  C9. The backlash that the involute generator sets on the tooth object, from which the
  tooth points are then taken, is \<open>+backlash\<close> when \<open>reversed_backlash\<close> is false and
  \<open>-backlash\<close> when it is true.
\<close>

theorem backlash_handed_to_tooth:
  "involute_tooth.backlash (involute_set_gear fp) =
     (if reversed_backlash fp then - involute_fp.backlash fp else involute_fp.backlash fp)"
  by (simp add: involute_set_gear_def gear_backlash_def)

section \<open>Properties of the double-helix generation\<close>

lemma helicalextrusion_double:
  "helicalextrusion makePipeShell wi hgt ang True =
     Solid (half_sweep makePipeShell wi hgt ang
            @ map (mirror_face_at (0.5 * hgt)) (half_sweep makePipeShell wi hgt ang))"
  by (simp add: helicalextrusion_def double_helix_faces_def half_sweep_def filter_mirror Let_def
        move_mirror comp_def)

lemma involute_double_helix:
  assumes "\<not> simple fp" "involute_fp.height fp \<noteq> 0" "involute_fp.beta fp \<noteq> 0"
    and "involute_fp.double_helix fp"
    and "involute_outline dims points rotation fp = Inr (dm, pts)"
  shows "involute_generate_gear_shape dims points rotation makePipeShell fp =
           Inr (Solid
                  (half_sweep makePipeShell (make_bspline_wire pts) (involute_fp.height fp)
                     (involute_fp.height fp * tan (involute_fp.beta fp * pi / 180) * 2 / d dm)
                   @ map (mirror_face_at (0.5 * involute_fp.height fp))
                       (half_sweep makePipeShell (make_bspline_wire pts) (involute_fp.height fp)
                          (involute_fp.height fp * tan (involute_fp.beta fp * pi / 180) * 2
                             / d dm))))"
  using assms
  by (simp add: involute_generate_gear_shape_def helicalextrusion_double involute_set_gear_def
        Let_def)

lemma cycloid_double_helix:
  assumes "cycloid_fp.height cfp \<noteq> 0" "cycloid_fp.beta cfp \<noteq> 0" "cycloid_fp.double_helix cfp"
    and "cycloid_outline upd cpoints rotation cfp = Inr (cdm, cpts)"
  shows "cycloid_generate_gear_shape upd cpoints rotation makePipeShell cfp =
           Inr (Solid
                  (half_sweep makePipeShell (make_bspline_wire cpts) (cycloid_fp.height cfp)
                     (cycloid_fp.height cfp * tan (cycloid_fp.beta cfp * pi / 180) * 2 / d cdm)
                   @ map (mirror_face_at (0.5 * cycloid_fp.height cfp))
                       (half_sweep makePipeShell (make_bspline_wire cpts) (cycloid_fp.height cfp)
                          (cycloid_fp.height cfp * tan (cycloid_fp.beta cfp * pi / 180) * 2
                             / d cdm))))"
  using assms
  by (simp add: cycloid_generate_gear_shape_def helicalextrusion_double Let_def)

text \<open>
  C8, as the code has it. For an involute gear with the \<open>simple\<close> flag off, and for a
  cycloid gear, with a height and a helix angle other than 0 and the double-helix flag
  set, whose outline could be computed, the solid consists of the faces of one
  half-height helical sweep of the outline, without those on the mirror plane and moved
  up by half the height (the upper half), and of the mirror images of exactly these
  faces at the plane \<open>z = height / 2\<close> (the lower half); mirroring the lower half at that
  plane gives the upper half back.
\<close>

theorem double_helix_symmetric:
  "(\<not> simple fp \<and> involute_fp.height fp \<noteq> 0 \<and> involute_fp.beta fp \<noteq> 0
    \<and> involute_fp.double_helix fp
    \<and> involute_outline dims points rotation fp = Inr (dm, pts) \<longrightarrow>
      (let hgt = involute_fp.height fp;
           upper = half_sweep makePipeShell (make_bspline_wire pts) hgt
                     (hgt * tan (involute_fp.beta fp * pi / 180) * 2 / d dm);
           lower = map (mirror_face_at (0.5 * hgt)) upper
       in involute_generate_gear_shape dims points rotation makePipeShell fp
            = Inr (Solid (upper @ lower))
          \<and> map (mirror_face_at (0.5 * hgt)) lower = upper))
   \<and> (cycloid_fp.height cfp \<noteq> 0 \<and> cycloid_fp.beta cfp \<noteq> 0 \<and> cycloid_fp.double_helix cfp
      \<and> cycloid_outline upd cpoints rotation cfp = Inr (cdm, cpts) \<longrightarrow>
        (let hgt = cycloid_fp.height cfp;
             upper = half_sweep makePipeShell (make_bspline_wire cpts) hgt
                       (hgt * tan (cycloid_fp.beta cfp * pi / 180) * 2 / d cdm);
             lower = map (mirror_face_at (0.5 * hgt)) upper
         in cycloid_generate_gear_shape upd cpoints rotation makePipeShell cfp
              = Inr (Solid (upper @ lower))
            \<and> map (mirror_face_at (0.5 * hgt)) lower = upper))"
  unfolding Let_def map_mirror_face_at_twice
  using involute_double_helix [of fp dims points rotation dm pts makePipeShell]
        cycloid_double_helix [of cfp upd cpoints rotation cdm cpts makePipeShell]
  by blast

theorem double_helix_symmetric_witness:
  "involute_generate_gear_shape
     (\<lambda>g. \<lparr>dw = m_n g * real_of_int (involute_tooth.z g),
           d = m_n g * real_of_int (involute_tooth.z g),
           phipart = 2 * pi / real_of_int (involute_tooth.z g)\<rparr>)
     (\<lambda>g n. Inr [[(0, 0), (1, 0)]]) (\<lambda>a p. p)
     (\<lambda>h w. [\<lparr>normalAt00 = (1, 0, 0), CenterOfMass = (1, 0, 1/2),
                Vertexes = [(1, 0, 0), (1, 0, 1)]\<rparr>,
              \<lparr>normalAt00 = (0, 0, 1), CenterOfMass = (0, 0, 0),
                Vertexes = [(0, 0, 0), (1, 0, 0)]\<rparr>])
     \<lparr>simple = False, teeth = 1, module = 1, undercut = False, shift = 0, height = 2,
      pressure_angle = 20, clearance = 1/4, numpoints = 6, beta = 20, double_helix = True,
      backlash = 0, reversed_backlash = False, head = 0, properties_from_tool = False\<rparr>
     = Inr (Solid [\<lparr>normalAt00 = (1, 0, 0), CenterOfMass = (1, 0, 3/2),
                     Vertexes = [(1, 0, 1), (1, 0, 2)]\<rparr>,
                   \<lparr>normalAt00 = (1, 0, 0), CenterOfMass = (1, 0, 1/2),
                     Vertexes = [(1, 0, 1), (1, 0, 0)]\<rparr>])
   \<and> cycloid_generate_gear_shape
     (\<lambda>g. Inr \<lparr>dw = 1, d = 1, phipart = 2 * pi\<rparr>)
     (\<lambda>g n. Inr [[(0, 0), (1, 0)]]) (\<lambda>a p. p)
     (\<lambda>h w. [\<lparr>normalAt00 = (1, 0, 0), CenterOfMass = (1, 0, 1/2),
                Vertexes = [(1, 0, 0), (1, 0, 1)]\<rparr>,
              \<lparr>normalAt00 = (0, 0, 1), CenterOfMass = (0, 0, 0),
                Vertexes = [(0, 0, 0), (1, 0, 0)]\<rparr>])
     \<lparr>cycloid_fp.teeth = 1, module = 1, inner_diameter = 5, outer_diameter = 5, height = 2,
      double_helix = True, clearance = 1/4, head = 0, numpoints = 15, beta = 20, backlash = 0\<rparr>
     = Inr (Solid [\<lparr>normalAt00 = (1, 0, 0), CenterOfMass = (1, 0, 3/2),
                     Vertexes = [(1, 0, 1), (1, 0, 2)]\<rparr>,
                   \<lparr>normalAt00 = (1, 0, 0), CenterOfMass = (1, 0, 1/2),
                     Vertexes = [(1, 0, 1), (1, 0, 0)]\<rparr>])"
proof -
  let ?fp = "\<lparr>simple = False, teeth = 1, module = 1, undercut = False, shift = 0, height = 2,
      pressure_angle = 20, clearance = 1/4, numpoints = 6, beta = 20, double_helix = True,
      backlash = 0, reversed_backlash = False, head = 0, properties_from_tool = False\<rparr>"
  let ?dims = "\<lambda>g. \<lparr>dw = m_n g * real_of_int (involute_tooth.z g),
           d = m_n g * real_of_int (involute_tooth.z g),
           phipart = 2 * pi / real_of_int (involute_tooth.z g)\<rparr>"
  let ?points = "\<lambda>(g::involute_tooth) (n::int). (Inr [[(0, 0), (1, 0)]] :: error + point list list)"
  let ?cfp = "\<lparr>cycloid_fp.teeth = 1, module = 1, inner_diameter = 5, outer_diameter = 5,
      height = 2, double_helix = True, clearance = 1/4, head = 0, numpoints = 15, beta = 20,
      backlash = 0\<rparr>"
  let ?upd = "\<lambda>g::cycloid_tooth. (Inr \<lparr>dw = 1, d = 1, phipart = 2 * pi\<rparr> :: error + tooth_dims)"
  let ?cpoints = "\<lambda>(g::cycloid_tooth) (n::int). (Inr [[(0, 0), (1, 0)]] :: error + point list list)"
  let ?mps = "\<lambda>(h::helix) (w::wire).
            [\<lparr>normalAt00 = (1, 0, 0), CenterOfMass = (1, 0, 1/2),
                Vertexes = [(1, 0, 0), (1, 0, 1)]\<rparr>,
              \<lparr>normalAt00 = (0, 0, 1), CenterOfMass = (0, 0, 0),
                Vertexes = [(0, 0, 0), (1, 0, 0)]\<rparr>]"
  have o1: "involute_outline ?dims ?points (\<lambda>a p. p) ?fp
              = Inr (\<lparr>dw = 1, d = 1, phipart = 2 * pi\<rparr>, [[(0, 0), (1, 0)], [(1, 0), (0, 0)]])"
    by (simp add: involute_outline_def involute_set_gear_def involute_update_def
          assemble_outline_def connector_def py_last_def py_first_def Let_def not_le)
  have o2: "cycloid_outline ?upd ?cpoints (\<lambda>a p. p) ?cfp
              = Inr (\<lparr>dw = 1, d = 1, phipart = 2 * pi\<rparr>, [[(0, 0), (1, 0)], [(1, 0), (0, 0)]])"
    by (simp add: cycloid_outline_def cycloid_set_gear_def
          assemble_outline_def connector_def py_last_def py_first_def Let_def)
  show ?thesis
    using double_helix_symmetric
      [where fp = ?fp and dims = ?dims and points = ?points and rotation = "\<lambda>a p. p"
         and dm = "\<lparr>dw = 1, d = 1, phipart = 2 * pi\<rparr>"
         and pts = "[[(0, 0), (1, 0)], [(1, 0), (0, 0)]]" and makePipeShell = ?mps
         and cfp = ?cfp and upd = ?upd and cpoints = ?cpoints
         and cdm = "\<lparr>dw = 1, d = 1, phipart = 2 * pi\<rparr>"
         and cpts = "[[(0, 0), (1, 0)], [(1, 0), (0, 0)]]"]
      o1 o2
    by (simp add: Let_def half_sweep_def on_mirror_plane_def cross_def Length_def vec_z_def
          small_size_default_def move_z_face_def move_z_vec_def mirror_face_at_def
          mirror_face_def mirror_vec_def)
qed

text \<open>
  The claim C8 as stated, for every generation, fails for an involute gear in \<open>simple\<close>
  mode: with height 5, helix angle 20 and the double-helix flag set, a cylinder is
  requested and no sweep is made.
\<close>

theorem double_helix_simple_counterexample:
  "involute_generate_gear_shape
     (\<lambda>g. \<lparr>dw = m_n g * real_of_int (involute_tooth.z g),
           d = m_n g * real_of_int (involute_tooth.z g),
           phipart = 2 * pi / real_of_int (involute_tooth.z g)\<rparr>)
     (\<lambda>g n. Inr [[(0, 0), (1, 0)]]) (\<lambda>a p. p) (\<lambda>h w. [])
     \<lparr>simple = True, teeth = 1, module = 1, undercut = False, shift = 0, height = 5,
      pressure_angle = 20, clearance = 1/4, numpoints = 6, beta = 20, double_helix = True,
      backlash = 0, reversed_backlash = False, head = 0, properties_from_tool = False\<rparr>
     = Inr (Cylinder (1/2) 5)"
  by (simp add: involute_generate_gear_shape_def involute_outline_def involute_set_gear_def
        involute_update_def assemble_outline_def connector_def py_last_def py_first_def
        Let_def not_le)

section \<open>Properties of failing generations\<close>

lemma timing_teeth_zero:
  assumes "timing_fp.teeth tfp = 0"
  shows "timing_generate_gear_shape reflect tfp = Inl ZeroDivisionError"
proof -
  have "timing_tooth reflect (data (type tfp)) 0 = Inl ZeroDivisionError"
    by (cases "type tfp") (simp_all add: timing_tooth_def timing_phi_12_def Let_def)
  then show ?thesis
    using assms by (simp add: timing_generate_gear_shape_def timing_outline_def)
qed

lemma hypo_teeth_zero:
  assumes "teeth_number hfp = 0"
  shows "hypo_generate_gear_shape K fl hfp = Inl ZeroDivisionError"
  using assms by (simp add: hypo_generate_gear_shape_def hypo_cam_def)

text \<open>
  C3, as the code has it. An involute gear with \<open>teeth = 0\<close> and a bevel gear with
  \<open>pitch_angle = 0\<close> fail with \<open>InvalidParameter\<close>: the tooth object's update is the first
  thing that can fail, its error is not caught, and no outline or solid is built. The
  generators check nothing themselves: the timing-belt generator and the hypocycloid
  generator fail with \<open>ZeroDivisionError\<close> for a tooth count of 0.
\<close>

theorem invalid_input_fails:
  "(involute_fp.teeth fp = 0 \<longrightarrow>
      involute_generate_gear_shape dims points rotation mps fp = Inl InvalidParameter)
   \<and> (bevel_fp.pitch_angle bfp = 0 \<longrightarrow>
        bevel_generate_gear_shape bpoints rotation3D bfp = Inl InvalidParameter)
   \<and> (timing_fp.teeth tfp = 0 \<longrightarrow>
        timing_generate_gear_shape reflect tfp = Inl ZeroDivisionError)
   \<and> (teeth_number hfp = 0 \<longrightarrow>
        hypo_generate_gear_shape K fl hfp = Inl ZeroDivisionError)"
  using involute_teeth_zero bevel_pitch_angle_zero timing_teeth_zero hypo_teeth_zero by blast

theorem invalid_input_fails_witness:
  "involute_generate_gear_shape
     (\<lambda>g. \<lparr>dw = m_n g * real_of_int (involute_tooth.z g),
           d = m_n g * real_of_int (involute_tooth.z g),
           phipart = 2 * pi / real_of_int (involute_tooth.z g)\<rparr>)
     (\<lambda>g n. Inr [[(0, 0), (1, 0)]]) (\<lambda>a p. p) (\<lambda>h w. [])
     \<lparr>simple = False, teeth = 0, module = 1, undercut = False, shift = 0, height = 5,
      pressure_angle = 20, clearance = 1/4, numpoints = 6, beta = 0, double_helix = False,
      backlash = 0, reversed_backlash = False, head = 0, properties_from_tool = False\<rparr>
     = Inl InvalidParameter
   \<and> bevel_generate_gear_shape (\<lambda>g n. Inr [[(0, 0, 1), (1, 0, 1)]]) (\<lambda>a p. p)
     \<lparr>bevel_fp.teeth = 15, height = 5, pitch_angle = 0, pressure_angle = 20, module = 1,
      clearance = 1/10, numpoints = 6, reset_origin = True, backlash = 0, beta = 0,
      has_version = True\<rparr>
     = Inl InvalidParameter
   \<and> timing_generate_gear_shape (\<lambda>a p. p) \<lparr>timing_fp.teeth = 0, type = gt3, height = 5\<rparr>
     = Inl ZeroDivisionError
   \<and> hypo_generate_gear_shape total_kernel exact_ops
     \<lparr>pin_circle_radius = 66, roller_diameter = 3, eccentricity = 3/2, pressure_angle_lim = 50,
      pressure_angle_offset = 1/100, teeth_number = 0, segment_count = 42, hole_radius = 30,
      show_pins = True, pin_height = 20, center_pins = True, show_disk0 = True,
      show_disk1 = True, disk_height = 10\<rparr>
     = Inl ZeroDivisionError"
  using invalid_input_fails
    [where fp = "\<lparr>simple = False, teeth = 0, module = 1, undercut = False, shift = 0, height = 5,
        pressure_angle = 20, clearance = 1/4, numpoints = 6, beta = 0, double_helix = False,
        backlash = 0, reversed_backlash = False, head = 0, properties_from_tool = False\<rparr>"
      and bfp = "\<lparr>bevel_fp.teeth = 15, height = 5, pitch_angle = 0, pressure_angle = 20,
        module = 1, clearance = 1/10, numpoints = 6, reset_origin = True, backlash = 0, beta = 0,
        has_version = True\<rparr>"
      and tfp = "\<lparr>timing_fp.teeth = 0, type = gt3, height = 5\<rparr>"
      and hfp = "\<lparr>pin_circle_radius = 66, roller_diameter = 3, eccentricity = 3/2,
        pressure_angle_lim = 50, pressure_angle_offset = 1/100, teeth_number = 0,
        segment_count = 42, hole_radius = 30, show_pins = True, pin_height = 20,
        center_pins = True, show_disk0 = True, show_disk1 = True, disk_height = 10\<rparr>"]
  by simp

text \<open>
  The claim C3 as stated, \<open>InvalidParameter\<close> for every invalid input, fails for a
  timing-belt gear with 0 teeth: \<^verbatim>\<open>phi5 = np.pi / fp.teeth\<close> raises \<^verbatim>\<open>ZeroDivisionError\<close>.
\<close>

theorem timing_teeth_zero_counterexample:
  "timing_generate_gear_shape (\<lambda>a p. p) \<lparr>timing_fp.teeth = 0, type = gt2, height = 5\<rparr>
     = Inl ZeroDivisionError"
  by (simp add: timing_generate_gear_shape_def timing_outline_def timing_tooth_def
        timing_phi_12_def Let_def)

section \<open>Properties of the pressure angle scan\<close>

lemma angle_scan_find:
  assumes "\<forall>i \<in> set js. f i = Inr (g i)"
    and "\<forall>i \<in> set js. 0 < i"
  shows "angle_scan f ang js (mn, mx) =
           Inr (if mn < 0
                then (case find (\<lambda>i. g i < ang) js of None \<Rightarrow> mn | Some i \<Rightarrow> real i)
                else mn,
                if mx < 0
                then (case find (\<lambda>i. g i < - ang) js of None \<Rightarrow> mx | Some i \<Rightarrow> real i - 1)
                else mx)"
  using assms
proof (induction js arbitrary: mn mx)
  case Nil
  then show ?case by simp
next
  case (Cons j js)
  have fj: "f j = Inr (g j)" using Cons.prems(1) by simp
  have pos: "0 < j" using Cons.prems(2) by simp
  have tl: "\<forall>i \<in> set js. f i = Inr (g i)" "\<forall>i \<in> set js. 0 < i"
    using Cons.prems by simp_all
  show ?case
    unfolding angle_scan.simps fj sum.case Let_def fst_conv snd_conv Cons.IH [OF tl]
    using pos by (auto simp: not_less)
qed

lemma limit_angles_find:
  assumes "\<forall>i<180. calc_pressure_angle fl p dd n (radians fl (real i)) = Inr (x i)"
  shows "limit_angles fl p dd n ang =
           Inr (case find (\<lambda>i. x i < ang) [0 ..< 180] of None \<Rightarrow> - 1 | Some i \<Rightarrow> real i,
                case find (\<lambda>i. x i < - ang) [1 ..< 180] of None \<Rightarrow> - 1 | Some i \<Rightarrow> real i - 1)"
proof -
  let ?f = "\<lambda>i. calc_pressure_angle fl p dd n (radians fl (real i))"
  have split: "[0 ..< 180] = 0 # [1 ..< 180]" by (simp add: upt_conv_Cons)
  have f0: "?f 0 = Inr (x 0)" using assms [rule_format, of 0] by simp
  have ok: "\<forall>i \<in> set [1 ..< 180]. ?f i = Inr (x i)" using assms by simp
  have pos: "\<forall>i \<in> set [1 ..< 180]. (0::nat) < i" by simp
  have step: "limit_angles fl p dd n ang =
                angle_scan ?f ang [1 ..< 180] (if x 0 < ang then 0 else - 1, - 1)"
    unfolding limit_angles_def split angle_scan.simps f0 by (simp add: Let_def)
  show ?thesis
    unfolding step angle_scan_find [OF ok pos] split by simp
qed

lemma limit_radii_unfold:
  assumes "limit_angles fl p dd n ang = Inr (minAngle, maxAngle)"
  shows "limit_radii fl p dd e n ang =
           (case calc_pressure_limit fl p dd e n (radians fl minAngle) of
              Inl err \<Rightarrow> Inl err
            | Inr minRadius \<Rightarrow>
                (case calc_pressure_limit fl p dd e n (radians fl maxAngle) of
                   Inl err \<Rightarrow> Inl err
                 | Inr maxRadius \<Rightarrow> Inr (minRadius, maxRadius)))"
  by (simp add: limit_radii_def assms)


subsection \<open>The scan in arithmetic without rounding\<close>

lemma exact_ops_simps:
  "f_add exact_ops = (+)" "f_sub exact_ops = (-)" "f_mul exact_ops = (*)"
  "f_div exact_ops = (/)" "f_pow exact_ops = exact_pow" "f_sin exact_ops = sin"
  "f_cos exact_ops = cos" "f_asin exact_ops = arcsin" "f_atan exact_ops = arctan"
  "f_pi exact_ops = pi"
  by (simp_all add: exact_ops_def)

lemma exact_pow_simps:
  "exact_pow x 2 = x^2" "exact_pow x 0.5 = sqrt x" "exact_pow x (1 / 2) = sqrt x"
  by (simp_all add: exact_pow_def)


lemma sqrt2_bounds: "1 < sqrt 2" "sqrt 2 < 3/2"
proof -
  show "1 < sqrt 2" by simp
  have "sqrt 2 < sqrt ((3/2)^2)" by (simp add: power2_eq_square)
  then have "sqrt 2 < \<bar>3/2 :: real\<bar>" by (simp only: real_sqrt_abs)
  then show "sqrt 2 < 3/2" by simp
qed

lemma radicand_pos: "0 < 3 - 2 * sqrt 2 * cos a"
proof -
  have "cos a \<le> 1" by simp
  then have "2 * sqrt 2 * cos a \<le> 2 * sqrt 2" by simp
  also have "\<dots> < 3" using sqrt2_bounds(2) by simp
  finally show ?thesis by simp
qed

lemma pa_arg_bounded:
  "\<bar>(sqrt 2 * cos a - 1) / sqrt (3 - 2 * sqrt 2 * cos a)\<bar> \<le> 1"
proof -
  let ?R = "3 - 2 * sqrt 2 * cos a"
  have R: "0 < ?R" by (rule radicand_pos)
  have c2: "(cos a)^2 \<le> 1" by (simp add: abs_square_le_1)
  have "(sqrt 2 * cos a - 1)^2 = 2 * (cos a)^2 - 2 * sqrt 2 * cos a + 1"
    by (simp add: power2_diff power_mult_distrib)
  also have "\<dots> \<le> 2 * 1 - 2 * sqrt 2 * cos a + 1"
    using c2 by simp
  finally have "(sqrt 2 * cos a - 1)^2 \<le> ?R" by simp
  then have "sqrt ((sqrt 2 * cos a - 1)^2) \<le> sqrt ?R" by (simp only: real_sqrt_le_iff)
  then have "\<bar>sqrt 2 * cos a - 1\<bar> \<le> sqrt ?R" by simp
  then show ?thesis using R by (simp add: field_simps)
qed

lemma calc_pressure_angle_exact:
  assumes "p * real_of_int n \<noteq> 0"
  shows "calc_pressure_angle exact_ops p dd n a = Inr (pa_value a)"
proof -
  let ?R = "3 - 2 * sqrt 2 * cos a"
  let ?rg = "p * real_of_int n / sqrt 2"
  have R: "0 < ?R" by (rule radicand_pos)
  have rg: "?rg \<noteq> 0" using assms by simp
  have rad: "(sqrt 2)^2 + 1 - 2 * sqrt 2 * cos a = ?R" by simp
  have den: "?rg * sqrt ?R - dd / 2 + dd / 2 = ?rg * sqrt ?R" by simp
  have den0: "?rg * sqrt ?R \<noteq> 0" using rg R by simp
  have num: "p * real_of_int n * cos a - ?rg = ?rg * (sqrt 2 * cos a - 1)"
    by (simp add: field_simps)
  have arg: "(p * real_of_int n * cos a - ?rg) / (?rg * sqrt ?R)
               = (sqrt 2 * cos a - 1) / sqrt ?R"
    unfolding num using rg by simp
  show ?thesis
    unfolding calc_pressure_angle_def exact_ops_simps exact_pow_simps Let_def rad den arg
      pa_value_def
    using den0 pa_arg_bounded [of a] by simp
qed

lemma calc_pressure_limit_exact:
  assumes "p * real_of_int n \<noteq> 0"
  shows "\<exists>r. calc_pressure_limit exact_ops p dd e n a = Inr r"
proof -
  let ?R = "3 - 2 * sqrt 2 * cos a"
  let ?rg = "p * real_of_int n / sqrt 2"
  have R: "0 < ?R" by (rule radicand_pos)
  have rg: "?rg \<noteq> 0" using assms by simp
  have "(p * real_of_int n)^2 + ?rg^2 - 2 * (p * real_of_int n) * ?rg * cos a = ?rg^2 * ?R"
    by (simp add: field_simps power2_eq_square)
  moreover have "0 < ?rg^2 * ?R" using rg R by simp
  ultimately have "0 < (p * real_of_int n)^2 + ?rg^2 - 2 * (p * real_of_int n) * ?rg * cos a"
    by (simp only:)
  then have "0 < sqrt ((p * real_of_int n)^2 + ?rg^2 - 2 * (p * real_of_int n) * ?rg * cos a)"
    by (simp only: real_sqrt_gt_0_iff)
  then have "sqrt ((p * real_of_int n)^2 + ?rg^2 - 2 * (p * real_of_int n) * ?rg * cos a) \<noteq> 0"
    by (rule less_imp_neq [THEN not_sym])
  then show ?thesis
    unfolding calc_pressure_limit_def exact_ops_simps exact_pow_simps Let_def
    by simp
qed





section \<open>Properties of the hypocycloid generator\<close>

lemma limit_radii_exact_ok:
  assumes "p * real_of_int n \<noteq> 0"
  shows "\<exists>r. limit_radii exact_ops p dd e n ang = Inr r"
proof -
  have h: "\<forall>i<180. calc_pressure_angle exact_ops p dd n (radians exact_ops (real i))
                      = Inr (pa_value (radians exact_ops (real i)))"
    using calc_pressure_angle_exact [OF assms] by simp
  obtain a1 a2 where a: "limit_angles exact_ops p dd n ang = Inr (a1, a2)"
    using limit_angles_find [OF h] by blast
  obtain r1 where r1: "calc_pressure_limit exact_ops p dd e n (radians exact_ops a1) = Inr r1"
    using calc_pressure_limit_exact [OF assms] by blast
  obtain r2 where r2: "calc_pressure_limit exact_ops p dd e n (radians exact_ops a2) = Inr r2"
    using calc_pressure_limit_exact [OF assms] by blast
  show ?thesis by (simp add: limit_radii_unfold [OF a] r1 r2)
qed

lemma calcyp_exact_ok:
  assumes "e * real_of_int (n + 1) \<noteq> 0"
    and "1 < \<bar>(real_of_int n * p) / (e * real_of_int (n + 1))\<bar>"
  shows "\<exists>r. calcyp exact_ops p a e n = Inr r"
proof -
  have "\<bar>cos (real_of_int n * a)\<bar> \<le> 1" by simp
  then have "cos (real_of_int n * a) + (real_of_int n * p) / (e * real_of_int (n + 1)) \<noteq> 0"
    using assms(2) by linarith
  then show ?thesis
    unfolding calcyp_def exact_ops_simps Let_def using assms(1) by simp
qed

lemma cam_point_exact_ok:
  assumes "e * real_of_int (n + 1) \<noteq> 0"
    and "1 < \<bar>(real_of_int n * p) / (e * real_of_int (n + 1))\<bar>"
  shows "\<exists>v. cam_point exact_ops p dd e n maxRadius minRadius c a = Inr v"
proof -
  obtain yp where yp: "calcyp exact_ops p a e n = Inr yp"
    using calcyp_exact_ok [OF assms] by blast
  show ?thesis
    by (simp add: cam_point_def calc_x_def calc_y_def yp split: prod.splits)
qed

lemma map_err_ok:
  assumes "\<forall>x \<in> set xs. \<exists>y. f x = Inr y"
  shows "\<exists>ys. map_err f xs = Inr ys"
  using assms
proof (induction xs)
  case Nil
  then show ?case by simp
next
  case (Cons x xs)
  obtain y where y: "f x = Inr y" using Cons.prems by auto
  obtain ys where ys: "map_err f xs = Inr ys" using Cons by auto
  show ?case by (simp add: y ys)
qed

lemma hypo_cam_exact_ok:
  assumes "teeth_number fp \<noteq> 0" "segment_count fp \<noteq> 0"
    and "eccentricity fp * real_of_int (teeth_number fp + 1) \<noteq> 0"
    and "\<bar>eccentricity fp * real_of_int (teeth_number fp + 1)\<bar> < \<bar>pin_circle_radius fp\<bar>"
  shows "\<exists>cam. hypo_cam total_kernel exact_ops fp = Inr cam"
proof -
  let ?n = "teeth_number fp" and ?b = "pin_circle_radius fp" and ?e = "eccentricity fp"
  let ?p = "f_div exact_ops ?b (real_of_int ?n)"
  let ?q = "f_div exact_ops (f_mul exact_ops 2 (f_pi exact_ops)) (real_of_int (segment_count fp))"
  have n0: "real_of_int ?n \<noteq> 0" using assms(1) by simp
  have b0: "?b \<noteq> 0" using assms(4) by auto
  have p: "?p = ?b / real_of_int ?n" by (simp add: exact_ops_simps)
  have pn: "?p * real_of_int ?n \<noteq> 0" unfolding p using n0 b0 by simp
  have np: "real_of_int ?n * ?p = ?b" unfolding p using n0 by simp
  have big: "1 < \<bar>(real_of_int ?n * ?p) / (?e * real_of_int (?n + 1))\<bar>"
    unfolding np using assms(3,4) by (simp add: abs_divide)
  obtain r1 r2 where radii:
    "limit_radii exact_ops ?p (roller_diameter fp) ?e ?n (pressure_angle_lim fp) = Inr (r1, r2)"
    using limit_radii_exact_ok [OF pn] by (metis surj_pair)
  have "\<exists>ys. map_err
                (\<lambda>i. cam_point exact_ops ?p (roller_diameter fp) ?e ?n r2 r1
                        (pressure_angle_offset fp)
                        (f_div exact_ops (f_mul exact_ops ?q (real i)) (real_of_int ?n)))
                (0 # map Suc [0 ..< nat (segment_count fp)]) = Inr ys"
    by (rule map_err_ok) (use cam_point_exact_ok [OF assms(3) big] in blast)
  then obtain ys where ys: "map_err
                (\<lambda>i. cam_point exact_ops ?p (roller_diameter fp) ?e ?n r2 r1
                        (pressure_angle_offset fp)
                        (f_div exact_ops (f_mul exact_ops ?q (real i)) (real_of_int ?n)))
                (0 # map Suc [0 ..< nat (segment_count fp)]) = Inr ys" ..
  show ?thesis
    unfolding hypo_cam_def Let_def
    by (simp only: assms(1,2) if_False radii sum.case prod.case ys)
       (simp add: total_kernel_def)
qed

lemma hypo_nothing_shown:
  assumes "\<not> show_disk0 fp" "\<not> show_disk1 fp" "\<not> show_pins fp"
  shows "hypo_generate_gear_shape K fl fp =
           (case hypo_cam K fl fp of Inl err \<Rightarrow> Inl err | Inr cam \<Rightarrow> Inr None)"
  using assms by (simp add: hypo_generate_gear_shape_def hypo_disks_def split: sum.splits)

text \<open>
  C10, as the code has it. With the two disks and the pins all switched off, the
  generator returns \<open>None\<close>, neither an outline nor a solid, whenever the cam disk, which
  is computed first whatever the flags, could be built; an error raised while building
  it is raised unchanged.
\<close>

theorem hypo_all_hidden:
  "\<not> show_disk0 fp \<and> \<not> show_disk1 fp \<and> \<not> show_pins fp \<longrightarrow>
     hypo_generate_gear_shape K fl fp =
       (case hypo_cam K fl fp of Inl err \<Rightarrow> Inl err | Inr cam \<Rightarrow> Inr None)"
  using hypo_nothing_shown by blast

theorem hypo_all_hidden_witness:
  "hypo_generate_gear_shape total_kernel exact_ops
     \<lparr>pin_circle_radius = 66, roller_diameter = 3, eccentricity = 3/2, pressure_angle_lim = 50,
      pressure_angle_offset = 1/100, teeth_number = 42, segment_count = 42, hole_radius = 30,
      show_pins = False, pin_height = 20, center_pins = True, show_disk0 = False,
      show_disk1 = False, disk_height = 10\<rparr> = Inr None"
proof -
  let ?fp = "\<lparr>pin_circle_radius = 66, roller_diameter = 3, eccentricity = 3/2,
      pressure_angle_lim = 50, pressure_angle_offset = 1/100, teeth_number = 42,
      segment_count = 42, hole_radius = 30, show_pins = False, pin_height = 20,
      center_pins = True, show_disk0 = False, show_disk1 = False, disk_height = 10\<rparr>"
  have flags: "\<not> show_disk0 ?fp \<and> \<not> show_disk1 ?fp \<and> \<not> show_pins ?fp" by simp
  have "\<exists>cam. hypo_cam total_kernel exact_ops ?fp = Inr cam"
    by (rule hypo_cam_exact_ok) simp_all
  then obtain cam where cam: "hypo_cam total_kernel exact_ops ?fp = Inr cam" ..
  show ?thesis
    using hypo_all_hidden [of ?fp total_kernel exact_ops] flags by (simp only: cam sum.case) simp
qed

text \<open>
  The claim C10 as stated, \<open>None\<close> rather than an error for every such generation, fails
  for a tooth count of 0: \<^verbatim>\<open>p = b/n\<close> raises \<^verbatim>\<open>ZeroDivisionError\<close>.
\<close>

theorem hypo_all_hidden_counterexample:
  "hypo_generate_gear_shape total_kernel exact_ops
     \<lparr>pin_circle_radius = 66, roller_diameter = 3, eccentricity = 3/2, pressure_angle_lim = 50,
      pressure_angle_offset = 1/100, teeth_number = 0, segment_count = 42, hole_radius = 30,
      show_pins = False, pin_height = 20, center_pins = True, show_disk0 = False,
      show_disk1 = False, disk_height = 10\<rparr> = Inl ZeroDivisionError"
  by (simp add: hypo_generate_gear_shape_def hypo_cam_def)

end
